theory Spec2Isabelle
  imports Complex_Main "HOL-Library.Word" "HOL-Library.Char_ord" "HOL-Library.List_Lexorder"
begin

section \<open>Values\<close>

text \<open>
  The pipeline computes with pandas/numpy float64 columns. A finite float is idealised as
  a real: rounding to the nearest double is not modelled, overflow is. A result whose
  magnitude reaches \<open>float_bound\<close>, the midpoint between the largest double and
  \<open>2 ^ 1024\<close>, becomes a signed infinity. The non-finite values \<open>nan\<close>, \<open>inf\<close> and
  \<open>-inf\<close> are values of their own. Integer columns are int64.
\<close>

datatype npfloat = Num real | NaN | PosInf | NegInf

type_synonym int64 = "64 word"

datatype py_error =
  ZeroDivisionError | ValueError | TypeError | OverflowError | NonFiniteValueError

definition float_bound :: real where
  "float_bound = 2 ^ 1024 - 2 ^ 970"

definition np_round :: "real \<Rightarrow> npfloat" where
  "np_round x = (if \<bar>x\<bar> < float_bound then Num x else if 0 < x then PosInf else NegInf)"

text \<open>IEEE addition, negation and subtraction.\<close>

fun np_add :: "npfloat \<Rightarrow> npfloat \<Rightarrow> npfloat" where
  "np_add (Num a) (Num b) = np_round (a + b)"
| "np_add NaN y = NaN"
| "np_add x NaN = NaN"
| "np_add PosInf NegInf = NaN"
| "np_add NegInf PosInf = NaN"
| "np_add PosInf y = PosInf"
| "np_add x PosInf = PosInf"
| "np_add NegInf y = NegInf"
| "np_add x NegInf = NegInf"

fun np_neg :: "npfloat \<Rightarrow> npfloat" where
  "np_neg (Num a) = Num (- a)"
| "np_neg NaN = NaN"
| "np_neg PosInf = NegInf"
| "np_neg NegInf = PosInf"

definition np_sub :: "npfloat \<Rightarrow> npfloat \<Rightarrow> npfloat" where
  "np_sub x y = np_add x (np_neg y)"

text \<open>IEEE multiplication by a finite factor: an infinity times 0 is \<open>nan\<close>.\<close>

fun np_mul :: "npfloat \<Rightarrow> real \<Rightarrow> npfloat" where
  "np_mul (Num a) c = np_round (a * c)"
| "np_mul NaN c = NaN"
| "np_mul PosInf c = (if 0 < c then PosInf else if c < 0 then NegInf else NaN)"
| "np_mul NegInf c = (if 0 < c then NegInf else if c < 0 then PosInf else NaN)"

text \<open>numpy true division of a float by a finite divisor, here always a converted
  integer: no exception, a zero divisor yields \<open>nan\<close> or a signed infinity.\<close>

fun np_divide :: "npfloat \<Rightarrow> real \<Rightarrow> npfloat" where
  "np_divide (Num a) b =
     (if b = 0 then (if a = 0 then NaN else if 0 < a then PosInf else NegInf)
      else np_round (a / b))"
| "np_divide NaN b = NaN"
| "np_divide PosInf b = (if b < 0 then NegInf else PosInf)"
| "np_divide NegInf b = (if b < 0 then PosInf else NegInf)"

text \<open>\<open>np.log10\<close>: \<open>-inf\<close> at 0 and \<open>nan\<close> below 0.\<close>

fun np_log10 :: "npfloat \<Rightarrow> npfloat" where
  "np_log10 (Num x) = (if 0 < x then Num (log 10 x) else if x = 0 then NegInf else NaN)"
| "np_log10 NaN = NaN"
| "np_log10 PosInf = PosInf"
| "np_log10 NegInf = NaN"

text \<open>The sum of a float column as pandas takes it: \<open>nan\<close> is skipped, the remaining
  values are added in order, starting from 0.\<close>

definition dropna :: "npfloat list \<Rightarrow> npfloat list" where
  "dropna xs = filter (\<lambda>x. x \<noteq> NaN) xs"

definition series_sum :: "npfloat list \<Rightarrow> npfloat" where
  "series_sum xs = fold (\<lambda>x s. np_add s x) (dropna xs) (Num 0)"

text \<open>The mean of a float column: the sum over the count of the values that are not
  \<open>nan\<close>, and \<open>nan\<close> when there is none.\<close>

definition series_mean :: "npfloat list \<Rightarrow> npfloat" where
  "series_mean xs =
     (if dropna xs = [] then NaN else np_divide (series_sum xs) (real (length (dropna xs))))"

text \<open>The finite values that a float holds lie below the bound.\<close>

definition representable :: "npfloat \<Rightarrow> bool" where
  "representable x = (case x of Num a \<Rightarrow> \<bar>a\<bar> < float_bound | _ \<Rightarrow> True)"

text \<open>Minimum and maximum of two int64 values, compared as signed numbers.\<close>

definition smin :: "int64 \<Rightarrow> int64 \<Rightarrow> int64" where
  "smin a b = (if sint a < sint b then a else b)"

definition smax :: "int64 \<Rightarrow> int64 \<Rightarrow> int64" where
  "smax a b = (if sint b < sint a then a else b)"

section \<open>Feature engineering: \<open>StartupClustering.prepare_features\<close>\<close>

text \<open>One row of the cleaned funding frame \<open>self.df\<close>, with the columns that
  \<open>prepare_features\<close> reads: the amount is a float64 cell, the year an int64 cell.\<close>

record funding_row =
  startup_name :: string
  funding_amount_usd :: npfloat
  year :: int64
  industry :: string
  city :: string

text \<open>One row of \<open>startup_features\<close>: the group key, the flattened aggregate
  columns and the derived columns. The key column \<open>startup_name\<close> is the field
  \<open>key_startup_name\<close>, since the name is taken by the field of the input row.\<close>

record startup_features =
  key_startup_name :: string
  funding_amount_usd_sum :: npfloat
  funding_amount_usd_mean :: npfloat
  funding_amount_usd_count :: nat
  year_min :: int64
  year_max :: int64
  industry_first :: string
  city_first :: string
  total_funding :: npfloat
  avg_funding_per_round :: npfloat
  num_funding_rounds :: nat
  years_active :: int64
  funding_per_year :: npfloat
  log_total_funding :: npfloat
  log_avg_funding :: npfloat

text \<open>\<open>groupby('startup_name')\<close>: one group per distinct key, keys in ascending
  order (pandas sorts group keys by default), rows of a group in frame order.\<close>

definition group_keys :: "funding_row list \<Rightarrow> string list" where
  "group_keys df = sort (remdups (map startup_name df))"

definition group_rows :: "funding_row list \<Rightarrow> string \<Rightarrow> funding_row list" where
  "group_rows df k = filter (\<lambda>r. startup_name r = k) df"

text \<open>The aggregation of one group, given as its first row and the rest, followed by
  the derived columns of lines 58 to 66. \<open>count\<close> counts the amounts that are not
  \<open>nan\<close>. \<open>year_max - year_min + 1\<close> is int64 arithmetic and wraps around; the
  division converts it to a float.\<close>

definition agg_group :: "string \<Rightarrow> funding_row \<Rightarrow> funding_row list \<Rightarrow> startup_features" where
  "agg_group k r rs =
     (let amounts = map funding_amount_usd (r # rs);
          s = series_sum amounts;
          m = series_mean amounts;
          c = length (dropna amounts);
          ymin = fold smin (map year rs) (year r);
          ymax = fold smax (map year rs) (year r);
          ya = ymax - ymin + 1
      in \<lparr> key_startup_name = k,
           funding_amount_usd_sum = s,
           funding_amount_usd_mean = m,
           funding_amount_usd_count = c,
           year_min = ymin,
           year_max = ymax,
           industry_first = industry r,
           city_first = city r,
           total_funding = s,
           avg_funding_per_round = m,
           num_funding_rounds = c,
           years_active = ya,
           funding_per_year = np_divide s (real_of_int (sint ya)),
           log_total_funding = np_log10 (np_add s (Num 1)),
           log_avg_funding = np_log10 (np_add m (Num 1)) \<rparr>)"

definition prepare_features :: "funding_row list \<Rightarrow> startup_features list" where
  "prepare_features df =
     concat (map (\<lambda>k. case group_rows df k of [] \<Rightarrow> [] | r # rs \<Rightarrow> [agg_group k r rs])
                 (group_keys df))"

text \<open>Example rows: two funding rounds of one startup and one round of another; a row
  with the amount -1, as the amount parser returns it for the text \<open>-1\<close>; two rounds
  in the first and the last year that int64 holds; two rounds of 1e308 each.\<close>

definition round_A1 :: funding_row where
  "round_A1 = \<lparr> startup_name = ''A'', funding_amount_usd = Num 1000000, year = 2019,
                 industry = ''Fintech'', city = ''Pune'' \<rparr>"

definition round_A2 :: funding_row where
  "round_A2 = \<lparr> startup_name = ''A'', funding_amount_usd = Num 3000000, year = 2021,
                 industry = ''Edtech'', city = ''Delhi'' \<rparr>"

definition round_B :: funding_row where
  "round_B = \<lparr> startup_name = ''B'', funding_amount_usd = Num 500000, year = 2020,
                industry = ''Health'', city = ''Kochi'' \<rparr>"

definition round_C :: funding_row where
  "round_C = \<lparr> startup_name = ''C'', funding_amount_usd = Num (- 1), year = 2020,
                industry = ''Retail'', city = ''Agra'' \<rparr>"

definition round_D1 :: funding_row where
  "round_D1 = \<lparr> startup_name = ''D'', funding_amount_usd = Num 1000000,
                 year = - 9223372036854775808, industry = ''Media'', city = ''Surat'' \<rparr>"

definition round_D2 :: funding_row where
  "round_D2 = \<lparr> startup_name = ''D'', funding_amount_usd = Num 3000000,
                 year = 9223372036854775807, industry = ''Media'', city = ''Surat'' \<rparr>"

definition round_E1 :: funding_row where
  "round_E1 = \<lparr> startup_name = ''E'', funding_amount_usd = Num (10 ^ 308), year = 2020,
                 industry = ''Energy'', city = ''Indore'' \<rparr>"

definition round_E2 :: funding_row where
  "round_E2 = \<lparr> startup_name = ''E'', funding_amount_usd = Num (10 ^ 308), year = 2021,
                 industry = ''Energy'', city = ''Indore'' \<rparr>"

section \<open>The clustering object and its feature matrix\<close>

text \<open>The fields of \<open>StartupClustering\<close> that the modelled methods read or write.
  \<open>__init__\<close> leaves \<open>cluster_data\<close> and \<open>optimal_k\<close> at \<open>None\<close>. The scaler and
  the KMeans estimators are scikit-learn objects; they enter the model as function
  parameters of the methods that call them.\<close>

record clustering =
  df :: "funding_row list"
  cluster_data :: "startup_features list option"
  optimal_k :: "nat option"

definition init :: "funding_row list \<Rightarrow> clustering" where
  "init dataframe = \<lparr> df = dataframe, cluster_data = None, optimal_k = None \<rparr>"

definition run_prepare_features :: "clustering \<Rightarrow> clustering" where
  "run_prepare_features self = self\<lparr> cluster_data := Some (prepare_features (df self)) \<rparr>"

text \<open>\<open>feature_cols\<close>: the five columns handed to the scaler, in the order of the
  source list.\<close>

definition feature_cols :: "startup_features \<Rightarrow> npfloat list" where
  "feature_cols f =
     [log_total_funding f, log_avg_funding f, Num (real (num_funding_rounds f)),
      Num (real_of_int (sint (years_active f))), funding_per_year f]"

text \<open>\<open>DataFrame.fillna(v)\<close> replaces missing values, that is \<open>nan\<close>; infinities are
  not missing values and stay.\<close>

definition fillna :: "real \<Rightarrow> npfloat \<Rightarrow> npfloat" where
  "fillna v x = (case x of NaN \<Rightarrow> Num v | _ \<Rightarrow> x)"

text \<open>\<open>X = self.cluster_data[feature_cols].fillna(0)\<close>, the same expression in
  \<open>find_optimal_k\<close> (line 93) and \<open>train_kmeans\<close> (line 163).\<close>

definition select_X :: "startup_features list \<Rightarrow> npfloat list list" where
  "select_X cd = map (\<lambda>f. map (fillna 0) (feature_cols f)) cd"

section \<open>Elbow selection: \<open>StartupClustering.find_optimal_k\<close>\<close>

text \<open>IEEE comparison \<open><\<close>: false whenever an operand is \<open>nan\<close>.\<close>

fun np_less :: "npfloat \<Rightarrow> npfloat \<Rightarrow> bool" where
  "np_less (Num a) (Num b) = (a < b)"
| "np_less NaN y = False"
| "np_less x NaN = False"
| "np_less x NegInf = False"
| "np_less NegInf y = True"
| "np_less PosInf y = False"
| "np_less x PosInf = True"

text \<open>Multiplication of a float by a finite constant.\<close>

fun np_times :: "npfloat \<Rightarrow> real \<Rightarrow> npfloat" where
  "np_times (Num a) c = Num (a * c)"
| "np_times NaN c = NaN"
| "np_times PosInf c = (if 0 < c then PosInf else if c < 0 then NegInf else NaN)"
| "np_times NegInf c = (if 0 < c then NegInf else if c < 0 then PosInf else NaN)"

text \<open>\<open>np.mean\<close> of a list of finite floats: \<open>nan\<close> for the empty list.\<close>

definition np_mean :: "real list \<Rightarrow> npfloat" where
  "np_mean xs = (if xs = [] then NaN else Num (sum_list xs / real (length xs)))"

text \<open>A \<open>for\<close> loop that appends one value per element and is left by the first
  exception.\<close>

fun for_append :: "('a \<Rightarrow> py_error + 'b) \<Rightarrow> 'a list \<Rightarrow> py_error + 'b list" where
  "for_append body [] = Inr []"
| "for_append body (x # xs) =
     (case body x of
        Inl e \<Rightarrow> Inl e
      | Inr y \<Rightarrow> (case for_append body xs of Inl e \<Rightarrow> Inl e | Inr ys \<Rightarrow> Inr (y # ys)))"

text \<open>Line 119. \<open>inertia_\<close> is a Python float, so a zero divisor raises.\<close>

definition rate_at :: "real list \<Rightarrow> nat \<Rightarrow> py_error + real" where
  "rate_at inertias i =
     (if inertias ! (i - 1) = 0 then Inl ZeroDivisionError
      else Inr ((inertias ! (i - 1) - inertias ! i) / inertias ! (i - 1) * 100))"

definition compute_rates :: "real list \<Rightarrow> py_error + real list" where
  "compute_rates inertias = for_append (rate_at inertias) [1..<length inertias]"

text \<open>Lines 124 to 127: \<open>for i, rate in enumerate(rates)\<close>, started at index \<open>i\<close>;
  the result is the value assigned to \<open>self.optimal_k\<close> before \<open>break\<close>, if any.\<close>

fun elbow_scan :: "nat \<Rightarrow> real list \<Rightarrow> npfloat \<Rightarrow> nat option" where
  "elbow_scan i [] threshold = None"
| "elbow_scan i (rate # rest) threshold =
     (if 0 < i \<and> np_less (Num rate) threshold then Some (i + 2)
      else elbow_scan (Suc i) rest threshold)"

text \<open>The method. \<open>fit_transform\<close> stands for \<open>self.scaler.fit_transform\<close> and
  \<open>kmeans_inertia X k\<close> for \<open>KMeans(n_clusters=k, random_state=42, n_init=10).fit(X).inertia_\<close>;
  both may raise. The plot is not modelled. The result is the returned K together with
  the updated object.\<close>

definition find_optimal_k ::
  "(npfloat list list \<Rightarrow> py_error + real list list) \<Rightarrow> (real list list \<Rightarrow> nat \<Rightarrow> py_error + real) \<Rightarrow>
   clustering \<Rightarrow> nat \<Rightarrow> py_error + nat \<times> clustering" where
  "find_optimal_k fit_transform kmeans_inertia self max_k =
     (case cluster_data self of
        None \<Rightarrow> Inl TypeError
      | Some cd \<Rightarrow>
        (case fit_transform (select_X cd) of
           Inl e \<Rightarrow> Inl e
         | Inr X_scaled \<Rightarrow>
           (case for_append (kmeans_inertia X_scaled) [2..<max_k + 1] of
              Inl e \<Rightarrow> Inl e
            | Inr inertias \<Rightarrow>
              (case compute_rates inertias of
                 Inl e \<Rightarrow> Inl e
               | Inr rates \<Rightarrow>
                 (let threshold = np_times (np_mean rates) 0.5;
                      self1 = (case elbow_scan 0 rates threshold of
                                 Some k \<Rightarrow> self\<lparr> optimal_k := Some k \<rparr>
                               | None \<Rightarrow> self)
                  in case optimal_k self1 of
                       None \<Rightarrow> Inr (4, self1\<lparr> optimal_k := Some 4 \<rparr>)
                     | Some k \<Rightarrow> Inr (k, self1))))))"

text \<open>The claim's own reading of the heuristic, over the inertia list for
  \<open>k = kMin..kMax\<close>: \<open>rate[i]\<close> is indexed like the inertia list, from 1.\<close>

definition kMin :: nat where
  "kMin = 2"

definition spec_rate :: "real list \<Rightarrow> nat \<Rightarrow> real" where
  "spec_rate inertia i = (inertia ! (i - 1) - inertia ! i) / inertia ! (i - 1) * 100"

definition spec_threshold :: "real list \<Rightarrow> real" where
  "spec_threshold inertia =
     sum_list (map (spec_rate inertia) [1..<length inertia]) / real (length inertia - 1) * 0.5"

text \<open>Stand-ins for the two scikit-learn calls, used to run the method on examples: a
  scaler that passes finite cells through and rejects the others, and a KMeans whose
  inertia for \<open>k\<close> is read from a given curve, the inertia for \<open>k = 2\<close> first.\<close>

fun cell_value :: "npfloat \<Rightarrow> py_error + real" where
  "cell_value (Num x) = Inr x"
| "cell_value other = Inl ValueError"

definition passing_scaler :: "npfloat list list \<Rightarrow> py_error + real list list" where
  "passing_scaler X = for_append (for_append cell_value) X"

definition curve_inertia :: "real list \<Rightarrow> real list list \<Rightarrow> nat \<Rightarrow> py_error + real" where
  "curve_inertia curve X k =
     (if 2 \<le> k \<and> k - 2 < length curve then Inr (curve ! (k - 2)) else Inl ValueError)"

section \<open>Training: \<open>StartupClustering.train_kmeans\<close>\<close>

text \<open>\<open>fit_predict X k\<close> stands for
  \<open>KMeans(n_clusters=k, random_state=42, n_init=10).fit_predict(X)\<close>. The result is
  \<open>cluster_data\<close> with its new \<open>cluster\<close> column, each row paired with its label.
  \<open>self.optimal_k if self.optimal_k else 4\<close> takes 4 for \<open>None\<close> and for 0.\<close>

definition train_kmeans ::
  "(npfloat list list \<Rightarrow> py_error + real list list) \<Rightarrow> (real list list \<Rightarrow> nat \<Rightarrow> py_error + nat list) \<Rightarrow>
   clustering \<Rightarrow> nat option \<Rightarrow> py_error + (startup_features \<times> nat) list" where
  "train_kmeans fit_transform fit_predict self n_clusters =
     (let n = (case n_clusters of
                 Some n \<Rightarrow> n
               | None \<Rightarrow> (case optimal_k self of None \<Rightarrow> 4 | Some k \<Rightarrow> if k = 0 then 4 else k))
      in case cluster_data self of
           None \<Rightarrow> Inl TypeError
         | Some cd \<Rightarrow>
           (case fit_transform (select_X cd) of
              Inl e \<Rightarrow> Inl e
            | Inr X_scaled \<Rightarrow>
              (case fit_predict X_scaled n of
                 Inl e \<Rightarrow> Inl e
               | Inr labels \<Rightarrow>
                 if length labels = length cd then Inr (zip cd labels) else Inl ValueError)))"

section \<open>Cluster naming: \<open>StartupClustering.analyze_clusters\<close>\<close>

text \<open>Ascending order of floats that are not \<open>nan\<close>, by insertion.\<close>

fun np_insort :: "npfloat \<Rightarrow> npfloat list \<Rightarrow> npfloat list" where
  "np_insort x [] = [x]"
| "np_insort x (y # ys) = (if np_less y x then y # np_insort x ys else x # y # ys)"

definition np_sort :: "npfloat list \<Rightarrow> npfloat list" where
  "np_sort xs = foldr np_insort xs []"

text \<open>\<open>Series.quantile(q)\<close> with pandas' default linear interpolation, for
  \<open>0 \<le> q \<le> 1\<close> (the source passes 0.75, 0.50 and 0.60): \<open>nan\<close> is dropped; the
  position \<open>q * (n - 1)\<close> in the sorted values lies between a value and its successor,
  and the result is interpolated between the two as numpy does it, from the lower value
  for a fraction below one half and from the upper value otherwise; \<open>nan\<close> for an
  empty series.\<close>

definition quantile :: "npfloat list \<Rightarrow> real \<Rightarrow> npfloat" where
  "quantile xs q =
     (if dropna xs = [] then NaN
      else (let s = np_sort (dropna xs);
                h = q * real (length s - 1);
                lo = nat \<lfloor>h\<rfloor>;
                hi = min (lo + 1) (length s - 1);
                t = h - real lo;
                d = np_sub (s ! hi) (s ! lo)
            in if t < 1 / 2 then np_add (s ! lo) (np_mul d t)
               else np_sub (s ! hi) (np_mul d (1 - t))))"

text \<open>Lines 207 to 217 for one cluster: the nested conditional as written, with the
  quantiles taken over the two columns of the whole frame.\<close>

definition cluster_name ::
  "npfloat list \<Rightarrow> npfloat list \<Rightarrow> npfloat \<Rightarrow> npfloat \<Rightarrow> string" where
  "cluster_name all_funding all_rounds avg_funding avg_rounds =
     (if np_less (quantile all_funding 0.75) avg_funding then
        (if np_less (quantile all_rounds 0.75) avg_rounds then ''High-Growth Unicorns''
         else ''Large Single-Round Players'')
      else if np_less (quantile all_funding 0.50) avg_funding then ''Mid-Tier Growth Startups''
      else if np_less (quantile all_rounds 0.60) avg_rounds then ''Frequent Small-Round Startups''
      else ''Early-Stage Ventures'')"

definition cluster_df :: "(startup_features \<times> nat) list \<Rightarrow> nat \<Rightarrow> startup_features list" where
  "cluster_df cd c = map fst (filter (\<lambda>row. snd row = c) cd)"

definition all_funding :: "(startup_features \<times> nat) list \<Rightarrow> npfloat list" where
  "all_funding cd = map (\<lambda>row. total_funding (fst row)) cd"

definition all_rounds :: "(startup_features \<times> nat) list \<Rightarrow> npfloat list" where
  "all_rounds cd = map (\<lambda>row. Num (real (num_funding_rounds (fst row)))) cd"

text \<open>The dictionary \<open>cluster_names\<close> built by the loop over
  \<open>sorted(self.cluster_data['cluster'].unique())\<close>, as an association list.\<close>

definition cluster_names :: "(startup_features \<times> nat) list \<Rightarrow> (nat \<times> string) list" where
  "cluster_names cd =
     map (\<lambda>c. (c, cluster_name (all_funding cd) (all_rounds cd)
                    (series_mean (map total_funding (cluster_df cd c)))
                    (series_mean (map (\<lambda>f. Num (real (num_funding_rounds f))) (cluster_df cd c)))))
         (sort (remdups (map snd cd)))"

text \<open>The labelling rule in the words of the specification: five rules, each a
  condition and a label, tried from the top; the first rule whose condition holds gives
  the label.\<close>

fun first_match :: "(bool \<times> string) list \<Rightarrow> string option" where
  "first_match [] = None"
| "first_match ((cond, label) # rules) = (if cond then Some label else first_match rules)"

definition labelling_rules ::
  "npfloat \<Rightarrow> npfloat \<Rightarrow> npfloat \<Rightarrow> npfloat \<Rightarrow> npfloat \<Rightarrow> npfloat \<Rightarrow> (bool \<times> string) list" where
  "labelling_rules funding_p75 funding_p50 rounds_p75 rounds_p60 mean_funding mean_rounds =
     [(np_less funding_p75 mean_funding \<and> np_less rounds_p75 mean_rounds, ''High-Growth Unicorns''),
      (np_less funding_p75 mean_funding, ''Large Single-Round Players''),
      (np_less funding_p50 mean_funding, ''Mid-Tier Growth Startups''),
      (np_less rounds_p60 mean_rounds, ''Frequent Small-Round Startups''),
      (True, ''Early-Stage Ventures'')]"

section \<open>Standardizer\<close>

text \<open>Modelled from the spec: the Standardizer. The source calls scikit-learn's
  \<open>StandardScaler.fit_transform\<close> (lines 96 and 166), whose code is not part of the
  repository; the definitions below follow section 4.2 of the specification: \<open>fit\<close>
  computes the mean and the standard deviation of every column, \<open>transform\<close> maps
  \<open>v\<close> to \<open>(v - mean) / std\<close>, and to 0 where \<open>std\<close> is 0. A matrix is a list of
  rows.\<close>

definition column :: "real list list \<Rightarrow> nat \<Rightarrow> real list" where
  "column matrix j = map (\<lambda>row. row ! j) matrix"

definition col_mean :: "real list \<Rightarrow> real" where
  "col_mean vs = sum_list vs / real (length vs)"

definition col_std :: "real list \<Rightarrow> real" where
  "col_std vs = sqrt (sum_list (map (\<lambda>v. (v - col_mean vs)\<^sup>2) vs) / real (length vs))"

definition fit :: "nat \<Rightarrow> real list list \<Rightarrow> (real \<times> real) list" where
  "fit ncols matrix = map (\<lambda>j. (col_mean (column matrix j), col_std (column matrix j))) [0..<ncols]"

definition scale_value :: "real \<times> real \<Rightarrow> real \<Rightarrow> real" where
  "scale_value p v = (if snd p = 0 then 0 else (v - fst p) / snd p)"

definition transform :: "real list list \<Rightarrow> (real \<times> real) list \<Rightarrow> real list list" where
  "transform matrix params = map (\<lambda>row. map (\<lambda>(p, v). scale_value p v) (zip params row)) matrix"

definition fitTransform :: "nat \<Rightarrow> real list list \<Rightarrow> real list list" where
  "fitTransform ncols matrix = transform matrix (fit ncols matrix)"

text \<open>Modelled from the spec: the Standardizer's check of its input. In the source the
  check is scikit-learn's, inside \<open>StandardScaler.fit_transform\<close>; section 7 of the
  specification names its outcome: a matrix in which a \<open>nan\<close> or an infinity reaches
  the Standardizer is refused with \<open>NonFiniteValueError\<close>, and no value is replaced.
  A matrix of finite cells is scaled by \<open>fitTransform\<close>.\<close>

fun finite_cell :: "npfloat \<Rightarrow> py_error + real" where
  "finite_cell (Num x) = Inr x"
| "finite_cell other = Inl NonFiniteValueError"

definition standardize :: "nat \<Rightarrow> npfloat list list \<Rightarrow> py_error + real list list" where
  "standardize ncols X =
     (case for_append (for_append finite_cell) X of
        Inl e \<Rightarrow> Inl e
      | Inr matrix \<Rightarrow> Inr (fitTransform ncols matrix))"

section \<open>Amount parsing: \<open>DataLoader._clean_amount\<close>\<close>

text \<open>The cell values the function is applied to: a missing value (\<open>None\<close>), a Python
  integer, a float (\<open>nan\<close> included) or a string. A string is its sequence of bytes in
  UTF-8; a search for a text and its removal act on the bytes as they act on the
  characters.\<close>

datatype raw_amount = Missing | PyInt int | PyFloat npfloat | PyStr string

definition pd_isna :: "raw_amount \<Rightarrow> bool" where
  "pd_isna amount = (amount = Missing \<or> amount = PyFloat NaN)"

text \<open>\<open>float(n)\<close> for an integer: rounds to the nearest double (rounding is not
  modelled) and raises \<open>OverflowError\<close> when that is beyond the largest double.\<close>

definition float_of_int :: "int \<Rightarrow> py_error + npfloat" where
  "float_of_int n =
     (if \<bar>n\<bar> < 2 ^ 1024 - 2 ^ 970 then Inr (Num (of_int n)) else Inl OverflowError)"

text \<open>Python's \<open>str.strip\<close>, \<open>str.upper\<close> and \<open>float\<close> on a string follow the Unicode
  tables of the interpreter, which are not part of the repository: they are parameters
  of the model. \<open>str_float\<close> raises \<open>ValueError\<close> on a text that is no float
  literal.\<close>

record py_builtins =
  str_strip :: "string \<Rightarrow> string"
  str_upper :: "string \<Rightarrow> string"
  str_float :: "string \<Rightarrow> py_error + npfloat"

fun starts_with :: "string \<Rightarrow> string \<Rightarrow> bool" where
  "starts_with s [] = True"
| "starts_with [] (p # ps) = False"
| "starts_with (c # cs) (p # ps) = (c = p \<and> starts_with cs ps)"

text \<open>\<open>old in s\<close>.\<close>

fun contains :: "string \<Rightarrow> string \<Rightarrow> bool" where
  "contains [] old = (old = [])"
| "contains (c # cs) old = (starts_with (c # cs) old \<or> contains cs old)"

text \<open>\<open>s.replace(old, '')\<close> for a non-empty \<open>old\<close>: the occurrences are removed from
  the left, without overlap. The first argument counts the characters of a found
  occurrence that are still to be skipped.\<close>

fun remove_from :: "nat \<Rightarrow> string \<Rightarrow> string \<Rightarrow> string" where
  "remove_from skip [] old = []"
| "remove_from (Suc skip) (c # cs) old = remove_from skip cs old"
| "remove_from 0 (c # cs) old =
     (if old \<noteq> [] \<and> starts_with (c # cs) old then remove_from (length old - 1) cs old
      else c # remove_from 0 cs old)"

definition str_remove :: "string \<Rightarrow> string \<Rightarrow> string" where
  "str_remove s old = remove_from 0 s old"

text \<open>The rupee sign U+20B9 in UTF-8.\<close>

definition rupee :: string where
  "rupee = [CHR 0xE2, CHR 0x82, CHR 0xB9]"

text \<open>Lines 195 to 210: the multiplier and the string with the suffix removed.\<close>

definition magnitude :: "string \<Rightarrow> real \<times> string" where
  "magnitude amount_str =
     (if contains amount_str ''B'' \<or> contains amount_str ''BILLION'' then
        (1000000000, str_remove (str_remove amount_str ''B'') ''BILLION'')
      else if contains amount_str ''M'' \<or> contains amount_str ''MILLION'' then
        (1000000, str_remove (str_remove amount_str ''M'') ''MILLION'')
      else if contains amount_str ''K'' \<or> contains amount_str ''THOUSAND'' then
        (1000, str_remove (str_remove amount_str ''K'') ''THOUSAND'')
      else if contains amount_str ''CR'' \<or> contains amount_str ''CRORE'' then
        (10000000, str_remove (str_remove amount_str ''CR'') ''CRORE'')
      else if contains amount_str ''L'' \<or> contains amount_str ''LAKH'' then
        (100000, str_remove (str_remove amount_str ''L'') ''LAKH'')
      else (1, amount_str))"

text \<open>Lines 189 to 192 and the suffix handling: the multiplier and the text handed to
  \<open>float\<close>.\<close>

definition prepare_text :: "py_builtins \<Rightarrow> string \<Rightarrow> real \<times> string" where
  "prepare_text py t =
     (let amount_str = str_upper py (str_strip py t);
          amount_str = str_remove (str_remove (str_remove amount_str ''$'') rupee) '','';
          (multiplier, amount_str) = magnitude amount_str
      in (multiplier, str_strip py amount_str))"

text \<open>The function. The conversion of a number (line 187) is outside the \<open>try\<close>; the
  conversion of the text and its multiplication (line 213) are inside it, and the bare
  \<open>except\<close> returns 0.\<close>

definition clean_amount :: "py_builtins \<Rightarrow> raw_amount \<Rightarrow> py_error + npfloat" where
  "clean_amount py amount =
     (if pd_isna amount then Inr (Num 0)
      else case amount of
             PyInt n \<Rightarrow> float_of_int n
           | PyFloat v \<Rightarrow> Inr v
           | PyStr t \<Rightarrow>
               (case str_float py (snd (prepare_text py t)) of
                  Inr v \<Rightarrow> Inr (np_mul v (fst (prepare_text py t)))
                | Inl e \<Rightarrow> Inr (Num 0))
           | Missing \<Rightarrow> Inr (Num 0))"

text \<open>Stand-ins for the three built-in functions, used to run the function on examples
  of ASCII text, on which they agree with Python: white space is the ASCII white space,
  the letters a to z have an upper case, and a float literal is a plain decimal literal
  (digits with an optional fractional part); every other text is rejected.\<close>

definition is_space :: "char \<Rightarrow> bool" where
  "is_space c =
     (c \<in> set [CHR '' '', CHR 0x09, CHR 0x0A, CHR 0x0B, CHR 0x0C, CHR 0x0D,
               CHR 0x1C, CHR 0x1D, CHR 0x1E, CHR 0x1F])"

definition ascii_strip :: "string \<Rightarrow> string" where
  "ascii_strip s = rev (dropWhile is_space (rev (dropWhile is_space s)))"

definition upper_char :: "char \<Rightarrow> char" where
  "upper_char c =
     (case map_of (zip ''abcdefghijklmnopqrstuvwxyz'' ''ABCDEFGHIJKLMNOPQRSTUVWXYZ'') c of
        Some u \<Rightarrow> u
      | None \<Rightarrow> c)"

definition ascii_upper :: "string \<Rightarrow> string" where
  "ascii_upper s = map upper_char s"

definition digit_of :: "char \<Rightarrow> nat option" where
  "digit_of c = map_of (zip ''0123456789'' [0, 1, 2, 3, 4, 5, 6, 7, 8, 9]) c"

fun digits_value :: "nat \<Rightarrow> string \<Rightarrow> nat option" where
  "digits_value acc [] = Some acc"
| "digits_value acc (c # cs) =
     (case digit_of c of None \<Rightarrow> None | Some d \<Rightarrow> digits_value (10 * acc + d) cs)"

definition decimal_literal :: "string \<Rightarrow> py_error + npfloat" where
  "decimal_literal s =
     (let ip = takeWhile (\<lambda>c. c \<noteq> CHR ''.'') s;
          fp = drop 1 (dropWhile (\<lambda>c. c \<noteq> CHR ''.'') s)
      in if ip = [] \<and> fp = [] then Inl ValueError
         else case (digits_value 0 ip, digits_value 0 fp) of
                (Some a, Some b) \<Rightarrow> Inr (np_round (real a + real b / 10 ^ length fp))
              | _ \<Rightarrow> Inl ValueError)"

definition ascii_builtins :: py_builtins where
  "ascii_builtins =
     \<lparr> str_strip = ascii_strip, str_upper = ascii_upper, str_float = decimal_literal \<rparr>"

section \<open>Properties of the feature engineering\<close>

lemma group_rows_nonempty: "k \<in> set (group_keys rows) \<Longrightarrow> group_rows rows k \<noteq> []"
  by (auto simp: group_keys_def group_rows_def filter_empty_conv)

lemma prepare_features_map:
  "prepare_features rows =
     map (\<lambda>k. agg_group k (hd (group_rows rows k)) (tl (group_rows rows k))) (group_keys rows)"
proof -
  have "concat (map (\<lambda>k. case group_rows rows k of [] \<Rightarrow> [] | r # rs \<Rightarrow> [agg_group k r rs]) ks) =
        map (\<lambda>k. agg_group k (hd (group_rows rows k)) (tl (group_rows rows k))) ks"
    if "set ks \<subseteq> set (group_keys rows)" for ks
    using that
  proof (induction ks)
    case Nil
    show ?case by simp
  next
    case (Cons k ks)
    then have "group_rows rows k \<noteq> []" by (simp add: group_rows_nonempty)
    then obtain r rs where "group_rows rows k = r # rs" by (cases "group_rows rows k") auto
    with Cons show ?case by simp
  qed
  then show ?thesis by (simp add: prepare_features_def)
qed

subsection \<open>Signed minimum and maximum\<close>

lemma sint_smin: "sint (smin a b) = min (sint a) (sint b)"
  by (simp add: smin_def min_def)

lemma sint_smax: "sint (smax a b) = max (sint a) (sint b)"
  by (simp add: smax_def max_def)

lemma sint_fold_smin: "sint (fold smin ys a) = Min (sint ` set (a # ys))"
proof -
  have "sint (fold smin ys a) = fold min (map sint ys) (sint a)"
    by (induction ys arbitrary: a) (simp_all add: sint_smin)
  also have "\<dots> = Min (set (sint a # map sint ys))"
    by (simp only: Min.set_eq_fold)
  finally show ?thesis by simp
qed

lemma sint_fold_smax: "sint (fold smax ys a) = Max (sint ` set (a # ys))"
proof -
  have "sint (fold smax ys a) = fold max (map sint ys) (sint a)"
    by (induction ys arbitrary: a) (simp_all add: sint_smax)
  also have "\<dots> = Max (set (sint a # map sint ys))"
    by (simp only: Max.set_eq_fold)
  finally show ?thesis by simp
qed

lemma sint_span:
  fixes a b :: "64 word"
  assumes "sint a - sint b + 1 < 2 ^ 63" and "- (2 ^ 63) \<le> sint a - sint b + 1"
  shows "sint (a - b + 1) = sint a - sint b + 1"
proof -
  have "a - b + 1 = word_of_int (sint a - sint b + 1)"
    by simp
  then have "sint (a - b + 1) = signed_take_bit 63 (sint a - sint b + 1)"
    by (simp only: sint_sbintrunc') simp
  also have "\<dots> = sint a - sint b + 1"
    using assms by (intro signed_take_bit_int_eq_self) simp_all
  finally show ?thesis .
qed

subsection \<open>Sums stay below the bound\<close>

lemma float_bound_pos: "0 < float_bound"
  by (simp add: float_bound_def)

lemma representable_np_round: "representable (np_round x)"
  by (simp add: representable_def np_round_def)

lemma representable_np_add: "representable s \<Longrightarrow> representable (np_add s x)"
  by (cases s; cases x) (simp_all add: representable_np_round, simp_all add: representable_def)

lemma representable_series_sum: "representable (series_sum xs)"
proof -
  have "representable (fold (\<lambda>x s. np_add s x) ys s)" if "representable s" for ys s
    using that by (induction ys arbitrary: s) (simp_all add: representable_np_add)
  moreover have "representable (Num 0)"
    using float_bound_pos by (simp add: representable_def)
  ultimately show ?thesis by (simp add: series_sum_def)
qed

lemma total_funding_sum: "total_funding (agg_group k r rs) = series_sum (map funding_amount_usd (r # rs))"
  by (simp add: agg_group_def Let_def)

lemma divide_finite_total:
  assumes "\<bar>t\<bar> < float_bound" and "1 \<le> y"
  shows "np_divide (Num t) y = Num (t / y)"
proof -
  have "1 * \<bar>t\<bar> \<le> y * \<bar>t\<bar>"
    using assms(2) by (intro mult_right_mono) simp_all
  then have "\<bar>t / y\<bar> \<le> \<bar>t\<bar>"
    using assms(2) by (simp add: field_simps)
  with assms show ?thesis by (simp add: np_round_def)
qed

lemma key_agg_group: "key_startup_name (agg_group k r rs) = k"
  by (simp add: agg_group_def Let_def)

lemma keys_prepare_features: "map key_startup_name (prepare_features rows) = group_keys rows"
  by (simp add: prepare_features_map key_agg_group o_def)

lemma filter_eq_distinct: "distinct xs \<Longrightarrow> x \<in> set xs \<Longrightarrow> filter (\<lambda>y. y = x) xs = [x]"
  by (induction xs) (auto simp: filter_empty_conv)

lemma vector_of_key:
  assumes "group_rows rows k = r # rs"
  shows "filter (\<lambda>f. key_startup_name f = k) (prepare_features rows) = [agg_group k r rs]"
proof -
  have "k \<in> set (group_keys rows)"
    using assms by (auto simp: group_keys_def group_rows_def filter_eq_Cons_iff)
  moreover have "distinct (group_keys rows)" by (simp add: group_keys_def)
  ultimately have "filter (\<lambda>y. y = k) (group_keys rows) = [k]" by (simp add: filter_eq_distinct)
  then show ?thesis
    using assms by (simp add: prepare_features_map filter_map o_def key_agg_group)
qed

lemmas ex_rows = round_A1_def round_A2_def round_B_def round_C_def round_D1_def round_D2_def
  round_E1_def round_E2_def
lemmas pf_eval = prepare_features_def group_keys_def group_rows_def agg_group_def Let_def
  series_sum_def series_mean_def dropna_def np_round_def float_bound_def smin_def smax_def

text \<open>
  C3, as claimed: feature preparation fails with \<open>EmptyInputError\<close> when the record
  sequence is empty, rather than returning an empty feature collection. The function
  has no check of its input and raises nothing: on the empty frame the grouping has no
  groups and the result is the empty feature frame.
\<close>

theorem prepare_features_empty_returns: "prepare_features [] = []"
  by (simp add: prepare_features_def group_keys_def)

text \<open>
  C3, amended: \<open>prepare_features\<close> raises no error; it returns the empty feature
  collection exactly when the record sequence is empty.
\<close>

theorem prepare_features_empty_iff: "(prepare_features rows = []) = (rows = [])"
proof -
  have "(sort (remdups (map startup_name rows)) = []) = (rows = [])"
    by (metis length_sort length_0_conv remdups_eq_nil_iff map_is_Nil_conv)
  then show ?thesis by (simp add: prepare_features_map group_keys_def)
qed

text \<open>
  C5: for every non-empty record sequence the feature-building step produces exactly
  one feature vector per distinct startup name: the names of the output vectors are
  pairwise distinct, they are exactly the names that occur in the input (none is
  dropped), and the number of vectors is the number of distinct names.
\<close>

theorem one_vector_per_name:
  "rows \<noteq> [] \<Longrightarrow>
     distinct (map key_startup_name (prepare_features rows)) \<and>
     set (map key_startup_name (prepare_features rows)) = set (map startup_name rows) \<and>
     length (prepare_features rows) = card (set (map startup_name rows))"
proof -
  have len: "length (prepare_features rows) = length (group_keys rows)"
    by (simp add: prepare_features_map)
  have "length (group_keys rows) = card (set (map startup_name rows))"
    by (simp add: group_keys_def length_remdups_card_conv)
  with len show ?thesis
    by (simp add: keys_prepare_features) (simp add: group_keys_def)
qed

text \<open>Witness for C5: four rows with two distinct names give two vectors.\<close>

theorem one_vector_per_name_witness:
  "[round_B, round_A1, round_A2, round_B] \<noteq> [] \<and>
   map key_startup_name (prepare_features [round_B, round_A1, round_A2, round_B]) = [''A'', ''B''] \<and>
   card (set (map startup_name [round_B, round_A1, round_A2, round_B])) = 2"
proof -
  have nonempty: "[round_B, round_A1, round_A2, round_B] \<noteq> []"
    by simp
  have keys: "map key_startup_name (prepare_features [round_B, round_A1, round_A2, round_B]) = [''A'', ''B'']"
    by (simp add: ex_rows pf_eval)
  then have "length (prepare_features [round_B, round_A1, round_A2, round_B]) = 2"
    by (metis length_map length_Cons list.size(3) One_nat_def Suc_1)
  with one_vector_per_name [OF nonempty] nonempty keys show ?thesis
    by presburger
qed

text \<open>
  C6, as claimed: for every entity produced by the feature-building step,
  \<open>years_active\<close> is at least 1 and \<open>funding_per_year\<close> is finite. Both fail at the
  edges of the number types. For startup D, with rounds in the first and the last year
  that int64 holds, \<open>year_max - year_min + 1\<close> wraps around to 0 and the division
  yields an infinity. For startup E, with two rounds of 1e308, the sum of the amounts
  overflows to an infinity, and so does \<open>funding_per_year\<close>.
\<close>

theorem years_active_wraps_counterexample:
  "map (\<lambda>f. (years_active f, funding_per_year f)) (prepare_features [round_D1, round_D2]) =
     [(0, PosInf)] \<and>
   map (\<lambda>f. (total_funding f, years_active f, funding_per_year f))
       (prepare_features [round_E1, round_E2]) = [(PosInf, 2, PosInf)]"
  by (simp add: ex_rows pf_eval)

text \<open>
  C6, amended: for every entity produced by the feature-building step whose years span
  less than \<open>2 ^ 63 - 1\<close>, so that the int64 subtraction does not wrap around,
  \<open>years_active\<close> is the largest year of the entity's rows minus the smallest plus 1
  and is at least 1, so that the division is never by zero; and whenever
  \<open>total_funding\<close> is finite, \<open>funding_per_year\<close> is the finite quotient
  \<open>total_funding / years_active\<close>.
\<close>

theorem years_active_positive:
  assumes "f \<in> set (prepare_features rows)"
    and "Max (sint ` year ` {r \<in> set rows. startup_name r = key_startup_name f}) -
         Min (sint ` year ` {r \<in> set rows. startup_name r = key_startup_name f}) < 2 ^ 63 - 1"
  shows "sint (years_active f) =
           Max (sint ` year ` {r \<in> set rows. startup_name r = key_startup_name f}) -
           Min (sint ` year ` {r \<in> set rows. startup_name r = key_startup_name f}) + 1 \<and>
         1 \<le> sint (years_active f) \<and>
         (\<forall>t. total_funding f = Num t \<longrightarrow>
              funding_per_year f = Num (t / real_of_int (sint (years_active f))))"
proof -
  from assms(1) obtain k where k: "k \<in> set (group_keys rows)"
    and f: "f = agg_group k (hd (group_rows rows k)) (tl (group_rows rows k))"
    by (auto simp: prepare_features_map)
  define g where "g = group_rows rows k"
  define Y where "Y = sint ` year ` {r \<in> set rows. startup_name r = k}"
  have key: "key_startup_name f = k" by (simp add: f key_agg_group)
  from k have ne: "g \<noteq> []" unfolding g_def by (rule group_rows_nonempty)
  have "set (map year g) = year ` {r \<in> set rows. startup_name r = k}"
    by (auto simp: group_rows_def g_def)
  moreover have "map year g = year (hd g) # map year (tl g)"
    using ne by (cases g) auto
  ultimately have ys: "sint ` set (year (hd g) # map year (tl g)) = Y"
    by (simp add: Y_def)
  have fin: "finite Y" and nonempty: "Y \<noteq> {}"
    using ys by (auto simp del: list.set set_simps)
  have mn: "sint (year_min f) = Min Y" and mx: "sint (year_max f) = Max Y"
    using ys by (simp_all add: f g_def [symmetric] agg_group_def Let_def sint_fold_smin sint_fold_smax
        del: set_simps list.set)
  have le: "Min Y \<le> Max Y"
    using fin nonempty by (meson Min_le Max_in order_refl Min_in Max_ge)
  have span: "Max Y - Min Y < 2 ^ 63 - 1"
    using assms(2) by (simp add: key Y_def)
  have ya: "years_active f = year_max f - year_min f + 1"
    by (simp add: f agg_group_def Let_def)
  have "sint (year_max f - year_min f + 1) = sint (year_max f) - sint (year_min f) + 1"
    using le span by (intro sint_span) (simp_all add: mn mx)
  with ya mn mx have sy: "sint (years_active f) = Max Y - Min Y + 1" by simp
  with le have pos: "1 \<le> sint (years_active f)" by simp
  have fpy: "funding_per_year f = np_divide (total_funding f) (real_of_int (sint (years_active f)))"
    by (simp add: f agg_group_def Let_def)
  have "funding_per_year f = Num (t / real_of_int (sint (years_active f)))"
    if t: "total_funding f = Num t" for t
  proof -
    have "representable (total_funding f)"
      by (simp add: f total_funding_sum representable_series_sum)
    with t have "\<bar>t\<bar> < float_bound" by (simp add: representable_def)
    moreover from pos have "1 \<le> real_of_int (sint (years_active f))"
      by (simp del: of_int_sint)
    ultimately show ?thesis
      unfolding fpy t by (rule divide_finite_total)
  qed
  with sy pos show ?thesis by (simp add: key Y_def)
qed

text \<open>Witness for C6: the vector of startup A in a frame of three rows.\<close>

theorem years_active_positive_witness:
  "agg_group ''A'' round_A1 [round_A2] \<in> set (prepare_features [round_B, round_A1, round_A2]) \<and>
   sint (years_active (agg_group ''A'' round_A1 [round_A2])) = 3 \<and>
   total_funding (agg_group ''A'' round_A1 [round_A2]) = Num 4000000 \<and>
   funding_per_year (agg_group ''A'' round_A1 [round_A2]) = Num (4000000 / 3)"
proof -
  have member: "agg_group ''A'' round_A1 [round_A2] \<in> set (prepare_features [round_B, round_A1, round_A2])"
    by (simp add: prepare_features_def group_keys_def group_rows_def ex_rows)
  have "{r \<in> set [round_B, round_A1, round_A2].
        startup_name r = key_startup_name (agg_group ''A'' round_A1 [round_A2])} =
      set (filter (\<lambda>r. startup_name r = ''A'') [round_B, round_A1, round_A2])"
    by (simp only: set_filter key_agg_group)
  also have "\<dots> = {round_A1, round_A2}"
    by (simp add: ex_rows)
  finally have years: "sint ` year ` {r \<in> set [round_B, round_A1, round_A2].
        startup_name r = key_startup_name (agg_group ''A'' round_A1 [round_A2])} = {2019, 2021}"
    by (simp add: ex_rows)
  have span: "Max (sint ` year ` {r \<in> set [round_B, round_A1, round_A2].
        startup_name r = key_startup_name (agg_group ''A'' round_A1 [round_A2])}) -
      Min (sint ` year ` {r \<in> set [round_B, round_A1, round_A2].
        startup_name r = key_startup_name (agg_group ''A'' round_A1 [round_A2])}) < 2 ^ 63 - 1"
    by (simp only: years) simp
  have total: "total_funding (agg_group ''A'' round_A1 [round_A2]) = Num 4000000"
    by (simp add: ex_rows pf_eval)
  note at_A = years_active_positive [OF member span, unfolded years]
  from at_A have sy: "sint (years_active (agg_group ''A'' round_A1 [round_A2])) = 3"
    by simp
  from at_A total have "funding_per_year (agg_group ''A'' round_A1 [round_A2]) =
      Num (4000000 / real_of_int (sint (years_active (agg_group ''A'' round_A1 [round_A2]))))"
    by blast
  then have "funding_per_year (agg_group ''A'' round_A1 [round_A2]) = Num (4000000 / 3)"
    by (simp only: sy) simp
  with member sy total show ?thesis by blast
qed

subsection \<open>The two-round scenario\<close>

lemma log10_lower_by_powers:
  fixes x :: real
  assumes "0 < x" and "0 < q" and "10 ^ p < x ^ q"
  shows "real p / real q < log 10 x"
proof -
  have "log 10 ((10::real) ^ p) < log 10 (x ^ q)"
    using assms by (intro log_less) simp_all
  moreover have "log 10 ((10::real) ^ p) = real p"
    by (rule log_pow_cancel) simp_all
  moreover have "log 10 (x ^ q) = real q * log 10 x"
    using assms by (intro log_nat_power) simp
  ultimately have "real p < real q * log 10 x" by simp
  with \<open>0 < q\<close> show ?thesis by (simp add: field_simps)
qed

lemma log10_upper_by_powers:
  fixes x :: real
  assumes "0 < x" and "0 < q" and "x ^ q < 10 ^ p"
  shows "log 10 x < real p / real q"
proof -
  have "log 10 (x ^ q) < log 10 ((10::real) ^ p)"
    using assms by (intro log_less) simp_all
  moreover have "log 10 ((10::real) ^ p) = real p"
    by (rule log_pow_cancel) simp_all
  moreover have "log 10 (x ^ q) = real q * log 10 x"
    using assms by (intro log_nat_power) simp
  ultimately have "real q * log 10 x < real p" by simp
  with \<open>0 < q\<close> show ?thesis by (simp add: field_simps)
qed

lemma log10_2_lower: "205 / 681 < log 10 2"
  using log10_lower_by_powers [of 2 681 205] by simp

lemma log10_2_upper: "log 10 2 < 146 / 485"
  using log10_upper_by_powers [of 2 485 146] by simp

lemma log10_scale:
  fixes x y :: real
  assumes "0 < x" and "0 < y"
  shows "log 10 (x * y) = log 10 x + log 10 y"
  using assms by (simp add: log_mult)

lemma log10_4e6: "log 10 4000000 = 2 * log 10 2 + 6"
proof -
  have "log 10 (2 * (2 * 1000000)) = log 10 2 + (log 10 2 + log 10 (10 ^ 6))"
    by (simp only: log10_scale) (simp add: log10_scale)
  moreover have "log 10 ((10::real) ^ 6) = real 6"
    by (rule log_pow_cancel) simp_all
  ultimately show ?thesis by simp
qed

lemma ln10_ge_1: "1 \<le> ln (10::real)"
proof -
  have "exp 1 \<le> (10::real)" using exp_le by linarith
  then have "ln (exp 1) \<le> ln (10::real)" by (subst ln_le_cancel_iff) simp_all
  then show ?thesis by simp
qed

lemma log10_one_plus:
  fixes x :: real
  assumes "0 \<le> x"
  shows "log 10 (1 + x) \<le> x"
proof -
  have a: "ln (1 + x) \<le> x" using assms by (rule ln_add_one_self_le_self)
  have b: "0 \<le> ln (1 + x)" using assms by simp
  have "ln (1 + x) / ln 10 \<le> ln (1 + x) / 1"
    using ln10_ge_1 b by (intro divide_left_mono) simp_all
  with a show ?thesis by (simp add: log_def)
qed

lemma log10_step: "log 10 4000001 \<le> log 10 4000000 + 1 / 4000000"
proof -
  have "log 10 (4000000 * (1 + 1 / 4000000)) = log 10 4000000 + log 10 (1 + 1 / 4000000)"
    by (rule log10_scale) simp_all
  moreover have "log 10 (1 + 1 / 4000000) \<le> 1 / 4000000"
    by (rule log10_one_plus) simp
  ultimately show ?thesis by simp
qed

lemma abs_window: "c - e < x \<Longrightarrow> x < c + e \<Longrightarrow> \<bar>x - c\<bar> < (e::real)"
  by linarith

lemma log10_4000001_bounds: "\<bar>log 10 4000001 - 6.60206\<bar> < 1 / 100000"
proof -
  have "log 10 4000000 < log 10 4000001"
    by (rule log_less) simp_all
  with log10_2_lower log10_2_upper log10_4e6 log10_step
  have "660205 / 100000 < log 10 4000001" and "log 10 4000001 < 660207 / 100000"
    by linarith+
  then show ?thesis
    by (intro abs_window) simp_all
qed


lemma agg_two_rounds:
  assumes "{(funding_amount_usd r1, year r1), (funding_amount_usd r2, year r2)} =
           {(Num 1000000, 2019), (Num 3000000, 2021)}"
  shows "total_funding (agg_group k r1 [r2]) = Num 4000000 \<and>
         avg_funding_per_round (agg_group k r1 [r2]) = Num 2000000 \<and>
         num_funding_rounds (agg_group k r1 [r2]) = 2 \<and>
         years_active (agg_group k r1 [r2]) = 3 \<and>
         funding_per_year (agg_group k r1 [r2]) = Num (4000000 / 3) \<and>
         log_total_funding (agg_group k r1 [r2]) = Num (log 10 4000001)"
proof -
  from assms consider
      "funding_amount_usd r1 = Num 1000000" "year r1 = 2019"
      "funding_amount_usd r2 = Num 3000000" "year r2 = 2021"
    | "funding_amount_usd r1 = Num 3000000" "year r1 = 2021"
      "funding_amount_usd r2 = Num 1000000" "year r2 = 2019"
    by (auto simp: doubleton_eq_iff)
  then show ?thesis
    by cases (simp_all add: agg_group_def Let_def series_sum_def series_mean_def dropna_def
        np_round_def float_bound_def smin_def smax_def)
qed

text \<open>
  C9: for an entity with exactly two records, of amounts 1,000,000 and 3,000,000 in
  the years 2019 and 2021, the feature-building step yields one vector with
  \<open>total_funding = 4,000,000\<close>, \<open>avg_funding_per_round = 2,000,000\<close>,
  \<open>num_funding_rounds = 2\<close>, \<open>years_active = 3\<close>,
  \<open>funding_per_year = 4,000,000 / 3\<close>, which is 1,333,333.33 up to 0.01, and
  \<open>log_total_funding = log10(4,000,001)\<close>, which is 6.60206 up to 0.00001.
\<close>

theorem two_round_entity:
  assumes "group_rows rows k = [r1, r2]"
    and "{(funding_amount_usd r1, year r1), (funding_amount_usd r2, year r2)} =
         {(Num 1000000, 2019), (Num 3000000, 2021)}"
  shows "map (\<lambda>f. (total_funding f, avg_funding_per_round f, num_funding_rounds f, years_active f,
                   funding_per_year f, log_total_funding f))
             (filter (\<lambda>f. key_startup_name f = k) (prepare_features rows)) =
           [(Num 4000000, Num 2000000, 2, 3, Num (4000000 / 3), Num (log 10 4000001))] \<and>
         \<bar>4000000 / 3 - 1333333.33\<bar> < (1 / 100 :: real) \<and>
         \<bar>log 10 4000001 - 6.60206\<bar> < 1 / 100000"
proof -
  have "filter (\<lambda>f. key_startup_name f = k) (prepare_features rows) = [agg_group k r1 [r2]]"
    using assms(1) by (rule vector_of_key)
  moreover have "\<bar>4000000 / 3 - 1333333.33\<bar> < (1 / 100 :: real)"
    by simp
  ultimately show ?thesis
    using agg_two_rounds [OF assms(2), of k] log10_4000001_bounds by simp
qed

text \<open>Witness for C9: startup A of the example rows, in a frame with another startup.\<close>

theorem two_round_entity_witness:
  "group_rows [round_B, round_A1, round_A2] ''A'' = [round_A1, round_A2] \<and>
   map (\<lambda>f. (total_funding f, avg_funding_per_round f, num_funding_rounds f, years_active f,
             funding_per_year f, log_total_funding f))
       (filter (\<lambda>f. key_startup_name f = ''A'') (prepare_features [round_B, round_A1, round_A2])) =
     [(Num 4000000, Num 2000000, 2, 3, Num (4000000 / 3), Num (log 10 4000001))]"
proof -
  have rows: "group_rows [round_B, round_A1, round_A2] ''A'' = [round_A1, round_A2]"
    by (simp add: group_rows_def ex_rows)
  have vals: "{(funding_amount_usd round_A1, year round_A1), (funding_amount_usd round_A2, year round_A2)} =
         {(Num 1000000, 2019), (Num 3000000, 2021)}"
    by (simp add: ex_rows)
  from two_round_entity [OF rows vals] rows show ?thesis
    by blast
qed

section \<open>Properties of the elbow selection\<close>

lemma for_append_map:
  "(\<And>x. x \<in> set xs \<Longrightarrow> body x = Inr (g x)) \<Longrightarrow> for_append body xs = Inr (map g xs)"
  by (induction xs) simp_all

lemma compute_rates_spec:
  assumes "\<forall>j < length inertia - 1. inertia ! j \<noteq> 0"
  shows "compute_rates inertia = Inr (map (spec_rate inertia) [1..<length inertia])"
  unfolding compute_rates_def
proof (rule for_append_map)
  fix i assume "i \<in> set [1..<length inertia]"
  then have "i - 1 < length inertia - 1" by auto
  with assms have "inertia ! (i - 1) \<noteq> 0" by blast
  then show "rate_at inertia i = Inr (spec_rate inertia i)"
    by (simp add: rate_at_def spec_rate_def)
qed

lemma threshold_spec:
  assumes "2 \<le> length inertia"
  shows "np_times (np_mean (map (spec_rate inertia) [1..<length inertia])) 0.5 =
         Num (spec_threshold inertia)"
  using assms by (auto simp: np_mean_def spec_threshold_def)

lemma elbow_scan_first:
  assumes "j < length rates" and "0 < i + j" and "np_less (Num (rates ! j)) t"
    and "\<forall>j' < j. \<not> (0 < i + j' \<and> np_less (Num (rates ! j')) t)"
  shows "elbow_scan i rates t = Some (i + j + 2)"
  using assms
proof (induction rates arbitrary: i j)
  case Nil
  then show ?case by simp
next
  case (Cons r rs)
  show ?case
  proof (cases j)
    case 0
    with Cons.prems show ?thesis by simp
  next
    case (Suc m)
    from Cons.prems(4) Suc have skip: "\<not> (0 < i \<and> np_less (Num r) t)"
      by (auto dest: spec [of _ 0])
    have "elbow_scan (Suc i) rs t = Some (Suc i + m + 2)"
    proof (rule Cons.IH)
      show "m < length rs" using Cons.prems(1) Suc by simp
      show "0 < Suc i + m" by simp
      show "np_less (Num (rs ! m)) t" using Cons.prems(3) Suc by simp
      show "\<forall>j' < m. \<not> (0 < Suc i + j' \<and> np_less (Num (rs ! j')) t)"
      proof (intro allI impI)
        fix j' assume "j' < m"
        then have "Suc j' < j" using Suc by simp
        with Cons.prems(4) have "\<not> (0 < i + Suc j' \<and> np_less (Num ((r # rs) ! Suc j')) t)"
          by blast
        then show "\<not> (0 < Suc i + j' \<and> np_less (Num (rs ! j')) t)" by simp
      qed
    qed
    with skip Suc show ?thesis by simp
  qed
qed

lemma elbow_scan_none:
  "\<forall>j < length rates. \<not> (0 < i + j \<and> np_less (Num (rates ! j)) t) \<Longrightarrow>
     elbow_scan i rates t = None"
proof (induction rates arbitrary: i)
  case Nil
  show ?case by simp
next
  case (Cons r rs)
  from Cons.prems have skip: "\<not> (0 < i \<and> np_less (Num r) t)"
    by (auto dest: spec [of _ 0])
  have "elbow_scan (Suc i) rs t = None"
  proof (rule Cons.IH, intro allI impI)
    fix j assume "j < length rs"
    then have "Suc j < length (r # rs)" by simp
    with Cons.prems have "\<not> (0 < i + Suc j \<and> np_less (Num ((r # rs) ! Suc j)) t)" by blast
    then show "\<not> (0 < Suc i + j \<and> np_less (Num (rs ! j)) t)" by simp
  qed
  with skip show ?case by simp
qed

lemma for_append_nth:
  "for_append body xs = Inr ys \<Longrightarrow>
     length ys = length xs \<and> (\<forall>j < length xs. body (xs ! j) = Inr (ys ! j))"
proof (induction xs arbitrary: ys)
  case Nil
  then show ?case by simp
next
  case (Cons x xs)
  from Cons.prems obtain y ys' where y: "body x = Inr y" and rest: "for_append body xs = Inr ys'"
    and ys: "ys = y # ys'"
    by (auto split: sum.splits)
  from Cons.IH [OF rest] y ys show ?case
    by (auto simp: nth_Cons split: nat.splits)
qed

lemma inertia_of_k:
  assumes "for_append (kmeans_inertia X) [2..<max_k + 1] = Inr inertia" and "j < length inertia"
  shows "kmeans_inertia X (kMin + j) = Inr (inertia ! j)"
proof -
  from for_append_nth [OF assms(1)] have len: "length inertia = length [2..<max_k + 1]"
    and nth: "\<forall>j < length [2..<max_k + 1]. kmeans_inertia X ([2..<max_k + 1] ! j) = Inr (inertia ! j)"
    by blast+
  from assms(2) len have j: "j < length [2..<max_k + 1]" by simp
  then have "j < max_k + 1 - 2" by (simp only: length_upt)
  then have "2 + j < max_k + 1" by arith
  then have at: "[2..<max_k + 1] ! j = 2 + j" by (rule nth_upt)
  from nth j have "kmeans_inertia X ([2..<max_k + 1] ! j) = Inr (inertia ! j)" by blast
  then show ?thesis by (simp only: at kMin_def)
qed

lemma find_optimal_k_unfold:
  assumes "cluster_data self = Some cd"
    and "fit_transform (select_X cd) = Inr X_scaled"
    and "for_append (kmeans_inertia X_scaled) [2..<max_k + 1] = Inr inertia"
    and "\<forall>j < length inertia - 1. inertia ! j \<noteq> 0"
  shows "find_optimal_k fit_transform kmeans_inertia self max_k =
     (case elbow_scan 0 (map (spec_rate inertia) [1..<length inertia])
             (np_times (np_mean (map (spec_rate inertia) [1..<length inertia])) 0.5) of
        Some k \<Rightarrow> Inr (k, self\<lparr> optimal_k := Some k \<rparr>)
      | None \<Rightarrow> (case optimal_k self of
                   None \<Rightarrow> Inr (4, self\<lparr> optimal_k := Some 4 \<rparr>)
                 | Some k \<Rightarrow> Inr (k, self)))"
  using assms(1-3) compute_rates_spec [OF assms(4)]
  by (simp add: find_optimal_k_def Let_def split: option.splits)

lemma example_object:
  "cluster_data (run_prepare_features (init [round_B, round_A1, round_A2])) =
     Some (prepare_features [round_B, round_A1, round_A2])"
  "optimal_k (run_prepare_features (init [round_B, round_A1, round_A2])) = None"
  by (simp_all add: run_prepare_features_def init_def)

lemma example_scaled:
  "passing_scaler (select_X (prepare_features [round_B, round_A1, round_A2])) =
     Inr [[log 10 4000001, log 10 2000001, 2, 3, 4000000 / 3],
          [log 10 500001, log 10 500001, 1, 1, 500000]]"
  by (simp add: passing_scaler_def select_X_def feature_cols_def fillna_def ex_rows pf_eval)

lemma curve_loop:
  "for_append (curve_inertia [100, 50, 45, 44] X) [2..<5 + 1] = Inr [100, 50, 45, 44]"
  "for_append (curve_inertia [100, 50, 25, 25 / 2, 12] X) [2..<6 + 1] = Inr [100, 50, 25, 25 / 2, 12]"
  "for_append (curve_inertia [100, 50, 25, 25 / 2, 12] X) [2..<5 + 1] = Inr [100, 50, 25, 25 / 2]"
  by (simp_all add: curve_inertia_def upt_rec)

lemma rates_example:
  "spec_rate [100, 50, 45, 44] 1 = 50" "spec_rate [100, 50, 45, 44] 2 = 10"
  "spec_rate [100, 50, 45, 44] 3 = 20 / 9" "spec_threshold [100, 50, 45, 44] = 280 / 27"
  by (simp_all add: spec_rate_def spec_threshold_def upt_rec)

lemma compute_rates_example:
  "compute_rates [100, 50, 45, 44] = Inr [50, 10, 20 / 9]"
  by (simp add: compute_rates_def rate_at_def upt_rec)

lemma find_optimal_k_example:
  "find_optimal_k passing_scaler (curve_inertia [100, 50, 45, 44])
       (run_prepare_features (init [round_B, round_A1, round_A2])) 5 =
     Inr (3, (run_prepare_features (init [round_B, round_A1, round_A2]))\<lparr> optimal_k := Some 3 \<rparr>)"
  by (simp only: find_optimal_k_def example_object option.case example_scaled sum.case
        curve_loop compute_rates_example)
     (simp add: np_mean_def)

text \<open>
  C1, as claimed: with \<open>rate[i] = (inertia[i-1] - inertia[i]) / inertia[i-1] * 100\<close> over
  the inertia list for \<open>k = kMin..kMax\<close> and \<open>threshold = mean(rate) * 0.5\<close>, the first
  index \<open>i > 0\<close> with \<open>rate[i] < threshold\<close> yields \<open>chosenK = kMin + i + 1\<close>. On the
  inertia curve 100, 50, 45, 44 the rates are 50, 10 and 20/9 and the threshold is 280/27:
  \<open>rate[1]\<close> is not below it and \<open>rate[2]\<close> is, so the claim gives \<open>kMin + 2 + 1 = 5\<close>,
  and \<open>kMin + 1 + 1 = 4\<close> if the index is counted in the list of rates from 0. The
  method returns 3.
\<close>

theorem elbow_offset_counterexample:
  "find_optimal_k passing_scaler (curve_inertia [100, 50, 45, 44])
       (run_prepare_features (init [round_B, round_A1, round_A2])) 5 =
     Inr (3, (run_prepare_features (init [round_B, round_A1, round_A2]))\<lparr> optimal_k := Some 3 \<rparr>) \<and>
   \<not> spec_rate [100, 50, 45, 44] 1 < spec_threshold [100, 50, 45, 44] \<and>
   spec_rate [100, 50, 45, 44] 2 < spec_threshold [100, 50, 45, 44] \<and>
   3 \<noteq> kMin + 2 + 1 \<and> 3 \<noteq> kMin + 1 + 1"
  by (simp only: find_optimal_k_example rates_example) (simp add: kMin_def)

text \<open>
  C1, amended: the scan skips the first rate, \<open>rate[1]\<close>, and the first index
  \<open>i \<ge> 2\<close> with \<open>rate[i] < threshold\<close> yields \<open>chosenK = kMin + i - 1\<close>, the K whose
  inertia is \<open>inertia[i-1]\<close>; in the indices of the list of rates, counted from 0,
  index 0 is skipped and the first index \<open>j > 0\<close> yields \<open>j + 2 = kMin + j\<close>. This
  holds when the scaler and every KMeans run return and no inertia before the last is 0,
  so that no rate divides by zero.
\<close>

theorem find_optimal_k_elbow:
  assumes "cluster_data self = Some cd"
    and "fit_transform (select_X cd) = Inr X_scaled"
    and "for_append (kmeans_inertia X_scaled) [2..<max_k + 1] = Inr inertia"
    and "\<forall>j < length inertia - 1. inertia ! j \<noteq> 0"
    and "2 \<le> i" and "i < length inertia"
    and "spec_rate inertia i < spec_threshold inertia"
    and "\<forall>j. 2 \<le> j \<and> j < i \<longrightarrow> \<not> spec_rate inertia j < spec_threshold inertia"
  shows "find_optimal_k fit_transform kmeans_inertia self max_k =
           Inr (kMin + i - 1, self\<lparr> optimal_k := Some (kMin + i - 1) \<rparr>) \<and>
         kmeans_inertia X_scaled (kMin + i - 1) = Inr (inertia ! (i - 1))"
proof -
  define rates where "rates = map (spec_rate inertia) [1..<length inertia]"
  define t where "t = np_times (np_mean rates) 0.5"
  have "kmeans_inertia X_scaled (kMin + (i - 1)) = Inr (inertia ! (i - 1))"
    using assms(3) assms(6) by (intro inertia_of_k) simp_all
  moreover have "kMin + (i - 1) = kMin + i - 1"
    using assms(5) by simp
  ultimately have at_k: "kmeans_inertia X_scaled (kMin + i - 1) = Inr (inertia ! (i - 1))"
    by simp
  have len: "length rates = length inertia - 1"
    by (simp add: rates_def)
  have nth: "rates ! j = spec_rate inertia (Suc j)" if "Suc j < length inertia" for j
    using that by (simp add: rates_def)
  have t: "t = Num (spec_threshold inertia)"
    unfolding t_def rates_def using assms(5,6) by (intro threshold_spec) simp
  have "elbow_scan 0 rates t = Some (0 + (i - 1) + 2)"
  proof (rule elbow_scan_first)
    show "i - 1 < length rates" using assms(5,6) by (simp add: len)
    show "0 < 0 + (i - 1)" using assms(5) by simp
    show "np_less (Num (rates ! (i - 1))) t"
      using assms(5,6,7) nth [of "i - 1"] by (simp add: t)
    show "\<forall>j' < i - 1. \<not> (0 < 0 + j' \<and> np_less (Num (rates ! j')) t)"
    proof (intro allI impI)
      fix j' assume j': "j' < i - 1"
      show "\<not> (0 < 0 + j' \<and> np_less (Num (rates ! j')) t)"
      proof (cases j')
        case 0
        then show ?thesis by simp
      next
        case (Suc m)
        with j' have "2 \<le> Suc j' \<and> Suc j' < i" by simp
        with assms(8) have "\<not> spec_rate inertia (Suc j') < spec_threshold inertia" by blast
        moreover have "rates ! j' = spec_rate inertia (Suc j')"
          using j' assms(6) by (intro nth) simp
        ultimately show ?thesis by (simp add: t)
      qed
    qed
  qed
  moreover have "0 + (i - 1) + 2 = kMin + i - 1"
    using assms(5) by (simp add: kMin_def)
  moreover note find_optimal_k_unfold [of self cd fit_transform X_scaled kmeans_inertia max_k inertia]
  ultimately have "find_optimal_k fit_transform kmeans_inertia self max_k =
           Inr (kMin + i - 1, self\<lparr> optimal_k := Some (kMin + i - 1) \<rparr>)"
    using assms(1-4) by (simp add: rates_def t_def)
  with at_k show ?thesis by (rule conjI [rotated])
qed

text \<open>Witness for C1: the curve 100, 50, 45, 44 with \<open>i = 2\<close>.\<close>

theorem find_optimal_k_elbow_witness:
  "spec_rate [100, 50, 45, 44] 2 < spec_threshold [100, 50, 45, 44] \<and>
   find_optimal_k passing_scaler (curve_inertia [100, 50, 45, 44])
       (run_prepare_features (init [round_B, round_A1, round_A2])) 5 =
     Inr (3, (run_prepare_features (init [round_B, round_A1, round_A2]))\<lparr> optimal_k := Some 3 \<rparr>)"
proof -
  have nonzero: "\<forall>j < length [100, 50, 45, 44 :: real] - 1. [100, 50, 45, 44 :: real] ! j \<noteq> 0"
    by (simp add: nth_Cons split: nat.splits)
  have below: "spec_rate [100, 50, 45, 44] 2 < spec_threshold [100, 50, 45, 44]"
    by (simp add: rates_example)
  have first: "\<forall>j. 2 \<le> j \<and> j < 2 \<longrightarrow> \<not> spec_rate [100, 50, 45, 44] j < spec_threshold [100, 50, 45, 44]"
    by simp
  have k: "kMin + 2 - 1 = 3" by (simp add: kMin_def)
  have "find_optimal_k passing_scaler (curve_inertia [100, 50, 45, 44])
       (run_prepare_features (init [round_B, round_A1, round_A2])) 5 =
     Inr (kMin + 2 - 1, (run_prepare_features (init [round_B, round_A1, round_A2]))\<lparr> optimal_k := Some (kMin + 2 - 1) \<rparr>)"
    using example_object(1) example_scaled curve_loop(1) nonzero _ _ below first
    by (rule find_optimal_k_elbow [THEN conjunct1]) simp_all
  with below show ?thesis by (simp only: k)
qed

lemma compute_rates_halving:
  "compute_rates [100, 50, 25, 25 / 2, 12] = Inr [50, 50, 50, 4]"
  "compute_rates [100, 50, 25, 25 / 2] = Inr [50, 50, 50]"
  by (simp_all add: compute_rates_def rate_at_def upt_rec)

lemma rates_halving:
  "spec_rate [100, 50, 25, 25 / 2] 2 = 50" "spec_rate [100, 50, 25, 25 / 2] 3 = 50"
  "spec_threshold [100, 50, 25, 25 / 2] = 25"
  by (simp_all add: spec_rate_def spec_threshold_def upt_rec)

lemma example_object_set:
  "cluster_data ((run_prepare_features (init [round_B, round_A1, round_A2]))\<lparr> optimal_k := Some 5 \<rparr>) =
     Some (prepare_features [round_B, round_A1, round_A2])"
  by (simp add: run_prepare_features_def init_def)

text \<open>
  C8: if no scanned rate index satisfies \<open>rate[i] < threshold\<close>, the chosen K is
  exactly 4. The method misses this on an object that it has served before: line 130
  assigns the default only while \<open>self.optimal_k\<close> is \<open>None\<close>, and the method never
  resets the field. The failing input is a second call on one object. The first call,
  with \<open>max_k = 6\<close> on the inertia curve 100, 50, 25, 12.5, 12, chooses 5. The second
  call, with \<open>max_k = 5\<close>, sees the curve 100, 50, 25, 12.5: the scanned rates
  \<open>rate[2]\<close> and \<open>rate[3]\<close> are 50, the threshold is 25, no rate is below it, and the
  method returns 5 where the claim says 4.
\<close>

theorem stale_optimal_k_failing_input:
  "find_optimal_k passing_scaler (curve_inertia [100, 50, 25, 25 / 2, 12])
       (run_prepare_features (init [round_B, round_A1, round_A2])) 6 =
     Inr (5, (run_prepare_features (init [round_B, round_A1, round_A2]))\<lparr> optimal_k := Some 5 \<rparr>) \<and>
   \<not> spec_rate [100, 50, 25, 25 / 2] 2 < spec_threshold [100, 50, 25, 25 / 2] \<and>
   \<not> spec_rate [100, 50, 25, 25 / 2] 3 < spec_threshold [100, 50, 25, 25 / 2] \<and>
   find_optimal_k passing_scaler (curve_inertia [100, 50, 25, 25 / 2, 12])
       ((run_prepare_features (init [round_B, round_A1, round_A2]))\<lparr> optimal_k := Some 5 \<rparr>) 5 =
     Inr (5, (run_prepare_features (init [round_B, round_A1, round_A2]))\<lparr> optimal_k := Some 5 \<rparr>)"
proof -
  have first: "find_optimal_k passing_scaler (curve_inertia [100, 50, 25, 25 / 2, 12])
       (run_prepare_features (init [round_B, round_A1, round_A2])) 6 =
     Inr (5, (run_prepare_features (init [round_B, round_A1, round_A2]))\<lparr> optimal_k := Some 5 \<rparr>)"
    by (simp only: find_optimal_k_def example_object option.case example_scaled sum.case
          curve_loop compute_rates_halving)
       (simp add: np_mean_def)
  have second: "find_optimal_k passing_scaler (curve_inertia [100, 50, 25, 25 / 2, 12])
       ((run_prepare_features (init [round_B, round_A1, round_A2]))\<lparr> optimal_k := Some 5 \<rparr>) 5 =
     Inr (5, (run_prepare_features (init [round_B, round_A1, round_A2]))\<lparr> optimal_k := Some 5 \<rparr>)"
    by (simp only: find_optimal_k_def example_object_set option.case example_scaled sum.case
          curve_loop compute_rates_halving)
       (simp add: np_mean_def)
  show ?thesis
    by (simp only: first second curve_loop rates_halving) simp
qed

text \<open>
  On an object whose \<open>optimal_k\<close> is still \<open>None\<close>, as \<open>__init__\<close> leaves it and as
  every call in the repository finds it, the default is reached: if no scanned rate
  index (\<open>i \<ge> 2\<close>) satisfies \<open>rate[i] < threshold\<close>, the chosen K is exactly 4. This
  holds when the scaler and every KMeans run return and no inertia before the last is
  0, so that no rate divides by zero.
\<close>

theorem find_optimal_k_default:
  assumes "cluster_data self = Some cd"
    and "fit_transform (select_X cd) = Inr X_scaled"
    and "for_append (kmeans_inertia X_scaled) [2..<max_k + 1] = Inr inertia"
    and "\<forall>j < length inertia - 1. inertia ! j \<noteq> 0"
    and "optimal_k self = None"
    and "\<forall>j. 2 \<le> j \<and> j < length inertia \<longrightarrow> \<not> spec_rate inertia j < spec_threshold inertia"
  shows "find_optimal_k fit_transform kmeans_inertia self max_k =
           Inr (4, self\<lparr> optimal_k := Some 4 \<rparr>)"
proof -
  define rates where "rates = map (spec_rate inertia) [1..<length inertia]"
  define t where "t = np_times (np_mean rates) 0.5"
  have nth: "rates ! j = spec_rate inertia (Suc j)" if "Suc j < length inertia" for j
    using that by (simp add: rates_def)
  have "elbow_scan 0 rates t = None"
  proof (rule elbow_scan_none, intro allI impI)
    fix j assume j: "j < length rates"
    show "\<not> (0 < 0 + j \<and> np_less (Num (rates ! j)) t)"
    proof (cases j)
      case 0
      then show ?thesis by simp
    next
      case (Suc m)
      with j have len: "2 \<le> length inertia" and in_range: "2 \<le> Suc j \<and> Suc j < length inertia"
        by (simp_all add: rates_def)
      with assms(6) have "\<not> spec_rate inertia (Suc j) < spec_threshold inertia" by blast
      moreover have "rates ! j = spec_rate inertia (Suc j)"
        using in_range by (intro nth) simp
      moreover have "t = Num (spec_threshold inertia)"
        unfolding t_def rates_def using len by (rule threshold_spec)
      ultimately show ?thesis by simp
    qed
  qed
  moreover note find_optimal_k_unfold [of self cd fit_transform X_scaled kmeans_inertia max_k inertia]
  ultimately show ?thesis
    using assms(1-5) by (simp add: rates_def t_def)
qed

text \<open>The default on a concrete first call, on the curve 100, 50, 25, 12.5.\<close>

theorem find_optimal_k_default_witness:
  "optimal_k (run_prepare_features (init [round_B, round_A1, round_A2])) = None \<and>
   \<not> spec_rate [100, 50, 25, 25 / 2] 2 < spec_threshold [100, 50, 25, 25 / 2] \<and>
   \<not> spec_rate [100, 50, 25, 25 / 2] 3 < spec_threshold [100, 50, 25, 25 / 2] \<and>
   find_optimal_k passing_scaler (curve_inertia [100, 50, 25, 25 / 2, 12])
       (run_prepare_features (init [round_B, round_A1, round_A2])) 5 =
     Inr (4, (run_prepare_features (init [round_B, round_A1, round_A2]))\<lparr> optimal_k := Some 4 \<rparr>)"
proof -
  have nonzero: "\<forall>j < length [100, 50, 25, 25 / 2 :: real] - 1. [100, 50, 25, 25 / 2 :: real] ! j \<noteq> 0"
    by (simp add: nth_Cons split: nat.splits)
  have r2: "\<not> spec_rate [100, 50, 25, 25 / 2] 2 < spec_threshold [100, 50, 25, 25 / 2]"
    and r3: "\<not> spec_rate [100, 50, 25, 25 / 2] 3 < spec_threshold [100, 50, 25, 25 / 2]"
    by (simp_all add: rates_halving)
  have none: "\<forall>j. 2 \<le> j \<and> j < length [100, 50, 25, 25 / 2 :: real] \<longrightarrow>
      \<not> spec_rate [100, 50, 25, 25 / 2] j < spec_threshold [100, 50, 25, 25 / 2]"
  proof (intro allI impI)
    fix j :: nat assume "2 \<le> j \<and> j < length [100, 50, 25, 25 / 2 :: real]"
    then have "j = 2 \<or> j = 3" by auto
    with r2 r3 show "\<not> spec_rate [100, 50, 25, 25 / 2] j < spec_threshold [100, 50, 25, 25 / 2]"
      by blast
  qed
  have "find_optimal_k passing_scaler (curve_inertia [100, 50, 25, 25 / 2, 12])
       (run_prepare_features (init [round_B, round_A1, round_A2])) 5 =
     Inr (4, (run_prepare_features (init [round_B, round_A1, round_A2]))\<lparr> optimal_k := Some 4 \<rparr>)"
    using example_object(1) example_scaled curve_loop(3) nonzero example_object(2) none
    by (rule find_optimal_k_default)
  with example_object(2) r2 r3 show ?thesis by blast
qed

section \<open>Properties of the feature matrix and of the Standardizer's check\<close>

lemma fillna_cases: "fillna 0 x = (if x = NaN then Num 0 else x)"
  by (cases x) (simp_all add: fillna_def)

lemma select_X_no_nan: "NaN \<notin> set (concat (select_X cd))"
  by (auto simp: select_X_def fillna_cases)

lemma finite_row_accepted: "for_append finite_cell (map Num vs) = Inr vs"
  by (induction vs) simp_all

lemma finite_matrix_accepted: "for_append (for_append finite_cell) (map (map Num) M) = Inr M"
  by (induction M) (simp_all add: finite_row_accepted)

lemma finite_cell_error: "finite_cell x = Inl e \<Longrightarrow> e = NonFiniteValueError"
  by (cases x) simp_all

lemma finite_cell_value: "finite_cell x = Inr v \<Longrightarrow> x = Num v"
  by (cases x) simp_all

lemma row_result:
  "(for_append finite_cell row = Inl e \<longrightarrow> e = NonFiniteValueError) \<and>
   (for_append finite_cell row = Inr vs \<longrightarrow> row = map Num vs)"
proof (induction row arbitrary: vs)
  case Nil
  show ?case by auto
next
  case (Cons x row)
  show ?case
  proof (cases "finite_cell x")
    case (Inl e')
    then show ?thesis by (auto dest: finite_cell_error)
  next
    case (Inr v)
    then have x: "x = Num v" by (rule finite_cell_value)
    show ?thesis
    proof (cases "for_append finite_cell row")
      case (Inl e')
      with Cons.IH Inr show ?thesis by auto
    next
      case (Inr ws)
      with Cons.IH [of ws] x show ?thesis by auto
    qed
  qed
qed

lemma matrix_result:
  "(for_append (for_append finite_cell) X = Inl e \<longrightarrow> e = NonFiniteValueError) \<and>
   (for_append (for_append finite_cell) X = Inr M \<longrightarrow> X = map (map Num) M)"
proof (induction X arbitrary: M)
  case Nil
  show ?case by auto
next
  case (Cons row X)
  show ?case
  proof (cases "for_append finite_cell row")
    case (Inl e')
    with row_result [of row e'] show ?thesis by auto
  next
    case (Inr vs)
    with row_result [of row _ vs] have row: "row = map Num vs" by blast
    show ?thesis
    proof (cases "for_append (for_append finite_cell) X")
      case (Inl e')
      with Cons.IH Inr show ?thesis by auto
    next
      case (Inr N)
      with Cons.IH [of N] row \<open>for_append finite_cell row = Inr vs\<close> show ?thesis by auto
    qed
  qed
qed

lemma standardize_refuses:
  assumes "x \<in> set (concat X)" and "x = NaN \<or> x = PosInf \<or> x = NegInf"
  shows "standardize ncols X = Inl NonFiniteValueError"
proof (cases "for_append (for_append finite_cell) X")
  case (Inl e)
  with matrix_result [of X e] show ?thesis by (simp add: standardize_def)
next
  case (Inr M)
  with matrix_result [of X _ M] have "X = map (map Num) M" by blast
  with assms show ?thesis by auto
qed

lemma example_infinite_features:
  "map feature_cols (prepare_features [round_C]) = [[NegInf, NegInf, Num 1, Num 1, Num (- 1)]]"
  by (simp add: feature_cols_def ex_rows pf_eval)

lemma example_infinite_object:
  "cluster_data (run_prepare_features (init [round_C])) = Some (prepare_features [round_C])"
  by (simp add: run_prepare_features_def init_def)

text \<open>
  C4: a \<open>nan\<close> or an infinity that reaches the Standardizer is refused with
  \<open>NonFiniteValueError\<close>, and the error is fatal for the pipeline: a matrix with such
  a cell is never scaled, a matrix that is scaled holds the very values it was given
  (none is replaced by a default), and an infinity in the feature columns, which
  \<open>fillna(0)\<close> leaves in place, makes \<open>find_optimal_k\<close> and \<open>train_kmeans\<close> end with
  the error instead of a result. A \<open>nan\<close> of the feature columns does not reach the
  Standardizer: it is imputed upstream by \<open>fillna(0)\<close>.
\<close>

theorem non_finite_value_is_fatal:
  "((\<exists>x \<in> set (concat X). x = NaN \<or> x = PosInf \<or> x = NegInf) \<longrightarrow>
      standardize ncols X = Inl NonFiniteValueError) \<and>
   (standardize ncols X = Inr Y \<longrightarrow> (\<exists>M. X = map (map Num) M \<and> Y = fitTransform ncols M)) \<and>
   (cluster_data self = Some cd \<and>
    (\<exists>x \<in> set (concat (map feature_cols cd)). x = PosInf \<or> x = NegInf) \<longrightarrow>
      find_optimal_k (standardize 5) kmeans_inertia self max_k = Inl NonFiniteValueError \<and>
      train_kmeans (standardize 5) fit_predict self n_clusters = Inl NonFiniteValueError)"
proof (intro conjI impI)
  assume "\<exists>x \<in> set (concat X). x = NaN \<or> x = PosInf \<or> x = NegInf"
  then obtain x where "x \<in> set (concat X)" and "x = NaN \<or> x = PosInf \<or> x = NegInf"
    by blast
  then show "standardize ncols X = Inl NonFiniteValueError"
    by (rule standardize_refuses)
next
  assume ok: "standardize ncols X = Inr Y"
  then obtain M where M: "for_append (for_append finite_cell) X = Inr M" and Y: "Y = fitTransform ncols M"
    by (auto simp: standardize_def split: sum.splits)
  from M matrix_result [of X _ M] have "X = map (map Num) M" by blast
  with Y show "\<exists>M. X = map (map Num) M \<and> Y = fitTransform ncols M" by blast
next
  assume reach: "cluster_data self = Some cd \<and>
    (\<exists>x \<in> set (concat (map feature_cols cd)). x = PosInf \<or> x = NegInf)"
  then obtain x f where f: "f \<in> set cd" and x: "x \<in> set (feature_cols f)"
    and inf: "x = PosInf \<or> x = NegInf"
    by auto
  from inf have "fillna 0 x = x" by (auto simp: fillna_def)
  with f x have "x \<in> set (concat (select_X cd))"
    by (force simp: select_X_def)
  with inf have refused: "standardize 5 (select_X cd) = Inl NonFiniteValueError"
    by (intro standardize_refuses) auto
  from reach refused
  show "find_optimal_k (standardize 5) kmeans_inertia self max_k = Inl NonFiniteValueError"
    by (simp add: find_optimal_k_def)
  from reach refused
  show "train_kmeans (standardize 5) fit_predict self n_clusters = Inl NonFiniteValueError"
    by (simp add: train_kmeans_def)
qed

text \<open>Witness for C4: startup C, whose amount -1 makes both logarithms \<open>-inf\<close>, and the finite
  frame of startup B.\<close>

theorem non_finite_value_is_fatal_witness:
  "map feature_cols (prepare_features [round_C]) = [[NegInf, NegInf, Num 1, Num 1, Num (- 1)]] \<and>
   find_optimal_k (standardize 5) (curve_inertia [100, 50, 45, 44])
       (run_prepare_features (init [round_C])) 5 = Inl NonFiniteValueError \<and>
   standardize 5 (select_X (prepare_features [round_B])) =
     Inr (fitTransform 5 [[log 10 500001, log 10 500001, 1, 1, 500000]])"
proof -
  have reach: "cluster_data (run_prepare_features (init [round_C])) = Some (prepare_features [round_C]) \<and>
      (\<exists>x \<in> set (concat (map feature_cols (prepare_features [round_C]))). x = PosInf \<or> x = NegInf)"
    by (simp add: example_infinite_object example_infinite_features)
  have fatal: "find_optimal_k (standardize 5) (curve_inertia [100, 50, 45, 44])
       (run_prepare_features (init [round_C])) 5 = Inl NonFiniteValueError"
    using non_finite_value_is_fatal
      [of _ _ _ "run_prepare_features (init [round_C])" "prepare_features [round_C]"
          "curve_inertia [100, 50, 45, 44]" 5] reach
    by blast
  have finite: "standardize 5 (select_X (prepare_features [round_B])) =
     Inr (fitTransform 5 [[log 10 500001, log 10 500001, 1, 1, 500000]])"
    by (simp add: standardize_def select_X_def feature_cols_def fillna_def ex_rows pf_eval)
  from example_infinite_features fatal finite show ?thesis by blast
qed

section \<open>Properties of the cluster naming\<close>

lemma cluster_name_first_match:
  "first_match (labelling_rules (quantile fs 0.75) (quantile fs 0.50) (quantile rs 0.75)
       (quantile rs 0.60) avg_funding avg_rounds) =
     Some (cluster_name fs rs avg_funding avg_rounds)"
  by (simp add: labelling_rules_def cluster_name_def)

lemma if_in: "x \<in> S \<Longrightarrow> y \<in> S \<Longrightarrow> (if b then x else y) \<in> S"
  by simp

lemma map_of_tabulate:
  "c \<in> set ks \<Longrightarrow> map_of (map (\<lambda>k. (k, g k)) ks) c = Some (g c)"
  by (induction ks) auto

lemma example_features:
  "prepare_features [round_B, round_A1, round_A2] =
     [agg_group ''A'' round_A1 [round_A2], agg_group ''B'' round_B []]"
  by (simp add: prepare_features_def group_keys_def group_rows_def ex_rows)

lemma example_columns:
  "total_funding (agg_group ''A'' round_A1 [round_A2]) = Num 4000000"
  "total_funding (agg_group ''B'' round_B []) = Num 500000"
  "num_funding_rounds (agg_group ''A'' round_A1 [round_A2]) = 2"
  "num_funding_rounds (agg_group ''B'' round_B []) = 1"
  by (simp_all add: ex_rows pf_eval)

text \<open>
  C2: the name of every cluster is the label of the first rule that holds in the ordered
  list of five rules: mean funding above the 75th percentile of funding and mean rounds
  above the 75th percentile of rounds give "High-Growth Unicorns"; mean funding above
  the 75th percentile of funding gives "Large Single-Round Players"; mean funding above
  the 50th percentile of funding gives "Mid-Tier Growth Startups"; mean rounds above the
  60th percentile of rounds give "Frequent Small-Round Startups"; otherwise
  "Early-Stage Ventures". The means are taken over the members of the cluster and the
  percentiles over the rows of all clusters. Every cluster gets one of the five labels,
  and the dictionary has one entry per cluster id.
\<close>

theorem cluster_names_decision_list:
  assumes "c \<in> snd ` set cd"
  shows "map_of (cluster_names cd) c =
           first_match
             (labelling_rules
                (quantile (map (\<lambda>row. total_funding (fst row)) cd) 0.75)
                (quantile (map (\<lambda>row. total_funding (fst row)) cd) 0.50)
                (quantile (map (\<lambda>row. Num (real (num_funding_rounds (fst row)))) cd) 0.75)
                (quantile (map (\<lambda>row. Num (real (num_funding_rounds (fst row)))) cd) 0.60)
                (series_mean (map total_funding (map fst (filter (\<lambda>row. snd row = c) cd))))
                (series_mean (map (\<lambda>f. Num (real (num_funding_rounds f)))
                                  (map fst (filter (\<lambda>row. snd row = c) cd))))) \<and>
         map_of (cluster_names cd) c \<in>
           Some ` {''High-Growth Unicorns'', ''Large Single-Round Players'',
                   ''Mid-Tier Growth Startups'', ''Frequent Small-Round Startups'',
                   ''Early-Stage Ventures''} \<and>
         map fst (cluster_names cd) = sort (remdups (map snd cd))"
proof -
  have "c \<in> set (sort (remdups (map snd cd)))"
    using assms by simp
  then have look: "map_of (cluster_names cd) c =
      Some (cluster_name (all_funding cd) (all_rounds cd)
              (series_mean (map total_funding (cluster_df cd c)))
              (series_mean (map (\<lambda>f. Num (real (num_funding_rounds f))) (cluster_df cd c))))"
    unfolding cluster_names_def by (rule map_of_tabulate)
  have keys: "map fst (cluster_names cd) = sort (remdups (map snd cd))"
    by (simp add: cluster_names_def o_def)
  have five: "cluster_name fs rs a b \<in>
           {''High-Growth Unicorns'', ''Large Single-Round Players'',
                   ''Mid-Tier Growth Startups'', ''Frequent Small-Round Startups'',
                   ''Early-Stage Ventures''}" for fs rs a b
    unfolding cluster_name_def by (intro if_in) (rule insertI1 | rule insertI2)+
  have rule: "first_match
             (labelling_rules (quantile (all_funding cd) 0.75) (quantile (all_funding cd) 0.50)
                (quantile (all_rounds cd) 0.75) (quantile (all_rounds cd) 0.60)
                (series_mean (map total_funding (cluster_df cd c)))
                (series_mean (map (\<lambda>f. Num (real (num_funding_rounds f))) (cluster_df cd c)))) =
        map_of (cluster_names cd) c"
    by (simp only: cluster_name_first_match look)
  have mem: "map_of (cluster_names cd) c \<in>
           Some ` {''High-Growth Unicorns'', ''Large Single-Round Players'',
                   ''Mid-Tier Growth Startups'', ''Frequent Small-Round Startups'',
                   ''Early-Stage Ventures''}"
    unfolding look by (rule imageI) (rule five)
  show ?thesis
    using rule [symmetric] mem keys
    unfolding all_funding_def all_rounds_def cluster_df_def
    by (intro conjI)
qed

text \<open>Witness for C2: startup A in cluster 0 and startup B in cluster 1.\<close>

theorem cluster_names_decision_list_witness:
  "(0::nat) \<in> snd ` set (zip (prepare_features [round_B, round_A1, round_A2]) [0, 1]) \<and>
   map_of (cluster_names (zip (prepare_features [round_B, round_A1, round_A2]) [0, 1])) 0 =
     Some ''High-Growth Unicorns''"
proof -
  have member: "(0::nat) \<in> snd ` set (zip (prepare_features [round_B, round_A1, round_A2]) [0, 1])"
    by (simp add: example_features)
  have "first_match
             (labelling_rules
                (quantile (map (\<lambda>row. total_funding (fst row)) (zip (prepare_features [round_B, round_A1, round_A2]) [0, 1::nat])) 0.75)
                (quantile (map (\<lambda>row. total_funding (fst row)) (zip (prepare_features [round_B, round_A1, round_A2]) [0, 1::nat])) 0.50)
                (quantile (map (\<lambda>row. Num (real (num_funding_rounds (fst row)))) (zip (prepare_features [round_B, round_A1, round_A2]) [0, 1::nat])) 0.75)
                (quantile (map (\<lambda>row. Num (real (num_funding_rounds (fst row)))) (zip (prepare_features [round_B, round_A1, round_A2]) [0, 1::nat])) 0.60)
                (series_mean (map total_funding (map fst (filter (\<lambda>row. snd row = 0) (zip (prepare_features [round_B, round_A1, round_A2]) [0, 1::nat])))))
                (series_mean (map (\<lambda>f. Num (real (num_funding_rounds f)))
                              (map fst (filter (\<lambda>row. snd row = 0) (zip (prepare_features [round_B, round_A1, round_A2]) [0, 1::nat])))))) =
        Some ''High-Growth Unicorns''"
    by (simp add: example_features example_columns quantile_def Let_def labelling_rules_def
        series_mean_def series_sum_def dropna_def np_sort_def np_sub_def np_round_def float_bound_def)
  with cluster_names_decision_list [OF member] member show ?thesis
    by simp
qed

section \<open>Properties of the Standardizer\<close>

lemma col_std_constant:
  assumes "\<forall>v \<in> set vs. v = c"
  shows "col_std vs = 0"
proof (cases "vs = []")
  case True
  then show ?thesis by (simp add: col_std_def)
next
  case False
  from assms have vs: "vs = replicate (length vs) c"
    by (metis replicate_length_same)
  have "sum_list vs = real (length vs) * c"
    by (subst vs) (simp add: sum_list_replicate)
  with False have mean: "col_mean vs = c"
    by (simp add: col_mean_def)
  have "map (\<lambda>v. (v - c)\<^sup>2) vs = replicate (length vs) 0"
    using assms by (intro replicate_eqI) auto
  then show ?thesis
    by (simp add: col_std_def mean sum_list_replicate)
qed

text \<open>
  C7: a feature column whose values are identical across all rows has standard
  deviation 0, and \<open>transform\<close> maps it to 0 in every row.
\<close>

theorem constant_column_scaled_to_zero:
  assumes "j < ncols"
    and "\<forall>row \<in> set matrix. length row = ncols \<and> row ! j = c"
  shows "col_std (column matrix j) = 0 \<and>
         column (fitTransform ncols matrix) j = replicate (length matrix) 0"
proof -
  have std: "col_std (column matrix j) = 0"
    using assms(2) by (intro col_std_constant) (auto simp: column_def)
  have param: "fit ncols matrix ! j = (col_mean (column matrix j), 0)"
    using assms(1) std by (simp add: fit_def)
  have len: "length (fit ncols matrix) = ncols"
    by (simp add: fit_def)
  have "map (\<lambda>(p, v). scale_value p v) (zip (fit ncols matrix) row) ! j = 0"
    if "row \<in> set matrix" for row
  proof -
    from that assms have "j < length row" by auto
    with assms(1) len show ?thesis
      by (simp add: param scale_value_def)
  qed
  then have "column (fitTransform ncols matrix) j = replicate (length matrix) 0"
    by (intro replicate_eqI) (auto simp: column_def fitTransform_def transform_def)
  with std show ?thesis by simp
qed

text \<open>Witness for C7: three rows whose first column is constantly 5.\<close>

theorem constant_column_scaled_to_zero_witness:
  "col_std (column [[5, 1], [5, 3], [5, 8]] 0) = 0 \<and>
   column (fitTransform 2 [[5, 1], [5, 3], [5, 8]]) 0 = [0, 0, 0]"
proof -
  have j: "(0::nat) < 2" by simp
  have rows: "\<forall>row \<in> set [[5, 1], [5, 3], [5, 8 :: real]]. length row = 2 \<and> row ! 0 = 5"
    by simp
  from constant_column_scaled_to_zero [OF j rows] show ?thesis
    by (simp add: numeral_3_eq_3)
qed

section \<open>Properties of the amount parsing\<close>

lemmas parse_eval = prepare_text_def magnitude_def str_remove_def ascii_builtins_def ascii_upper_def
  upper_char_def ascii_strip_def is_space_def rupee_def decimal_literal_def digit_of_def Let_def
  np_round_def float_bound_def

lemma magnitude_multiplier:
  "fst (magnitude s) =
     (if contains s ''B'' \<or> contains s ''BILLION'' then 1000000000
      else if contains s ''M'' \<or> contains s ''MILLION'' then 1000000
      else if contains s ''K'' \<or> contains s ''THOUSAND'' then 1000
      else if contains s ''CR'' \<or> contains s ''CRORE'' then 10000000
      else if contains s ''L'' \<or> contains s ''LAKH'' then 100000
      else 1)"
  by (simp add: magnitude_def)

text \<open>
  C10: the amount parser never raises and returns a numeric value for every input. The
  code misses this for an integer beyond the range of a double: the failing input is
  the Python integer \<open>10 ** 400\<close>. It is not missing and it is an \<open>int\<close>, so line 187
  returns \<open>float(amount)\<close>, which raises \<open>OverflowError\<close>; that conversion is not
  inside the \<open>try\<close>, unlike the conversion of a text at line 213.
\<close>

theorem clean_amount_overflow_failing_input:
  "clean_amount py (PyInt (10 ^ 400)) = Inl OverflowError"
  by (simp add: clean_amount_def pd_isna_def float_of_int_def)

text \<open>
  On every other input the function returns a value: a missing value and \<open>nan\<close> give 0,
  a float is returned as it is, an integer within the range of a double is converted,
  a text that \<open>float\<close> rejects after the removal of the currency symbols and of the
  magnitude suffix gives 0, and a text that it accepts gives the parsed value times the
  multiplier of the suffix.
\<close>

theorem clean_amount_returns:
  "((\<forall>n. amount = PyInt n \<longrightarrow> \<bar>n\<bar> < 2 ^ 1024 - 2 ^ 970) \<longrightarrow>
      (\<exists>v. clean_amount py amount = Inr v)) \<and>
   clean_amount py Missing = Inr (Num 0) \<and>
   clean_amount py (PyFloat NaN) = Inr (Num 0) \<and>
   (str_float py (snd (prepare_text py t)) = Inl e \<longrightarrow> clean_amount py (PyStr t) = Inr (Num 0)) \<and>
   (str_float py (snd (prepare_text py t)) = Inr x \<longrightarrow>
      clean_amount py (PyStr t) = Inr (np_mul x (fst (prepare_text py t))))"
proof (intro conjI impI)
  assume range: "\<forall>n. amount = PyInt n \<longrightarrow> \<bar>n\<bar> < 2 ^ 1024 - 2 ^ 970"
  show "\<exists>v. clean_amount py amount = Inr v"
  proof (cases amount)
    case Missing
    then show ?thesis by (simp add: clean_amount_def pd_isna_def)
  next
    case (PyInt n)
    with range have "\<bar>n\<bar> < 2 ^ 1024 - 2 ^ 970" by blast
    with PyInt show ?thesis
      by (simp only: clean_amount_def pd_isna_def float_of_int_def) simp
  next
    case (PyFloat v)
    then show ?thesis by (simp add: clean_amount_def pd_isna_def)
  next
    case (PyStr s)
    then show ?thesis
      by (cases "str_float py (snd (prepare_text py s))") (simp_all add: clean_amount_def pd_isna_def)
  qed
next
  show "clean_amount py Missing = Inr (Num 0)"
    by (simp add: clean_amount_def pd_isna_def)
  show "clean_amount py (PyFloat NaN) = Inr (Num 0)"
    by (simp add: clean_amount_def pd_isna_def)
next
  assume "str_float py (snd (prepare_text py t)) = Inl e"
  then show "clean_amount py (PyStr t) = Inr (Num 0)"
    by (simp add: clean_amount_def pd_isna_def)
next
  assume "str_float py (snd (prepare_text py t)) = Inr x"
  then show "clean_amount py (PyStr t) = Inr (np_mul x (fst (prepare_text py t)))"
    by (simp add: clean_amount_def pd_isna_def)
qed

lemma example_texts:
  "prepare_text ascii_builtins ''1.5 billion'' = (1000000000, ''1.5 ILLION'')"
  "prepare_text ascii_builtins '' $1.5M '' = (1000000, ''1.5'')"
  by (simp_all add: parse_eval)

lemma example_parses:
  "str_float ascii_builtins ''1.5 ILLION'' = Inl ValueError"
  "str_float ascii_builtins ''1.5'' = Inr (Num 1.5)"
  by (simp_all add: parse_eval)

text \<open>The values on an integer, on a text that stays unparseable and on a text with a
  suffix.\<close>

theorem clean_amount_returns_witness:
  "clean_amount ascii_builtins (PyInt 12) = Inr (Num 12) \<and>
   str_float ascii_builtins (snd (prepare_text ascii_builtins ''1.5 billion'')) = Inl ValueError \<and>
   clean_amount ascii_builtins (PyStr ''1.5 billion'') = Inr (Num 0) \<and>
   clean_amount ascii_builtins (PyStr '' $1.5M '') = Inr (Num 1500000)"
proof -
  have range: "\<forall>n. PyInt 12 = PyInt n \<longrightarrow> \<bar>n\<bar> < 2 ^ 1024 - 2 ^ 970"
    by simp
  have twelve: "clean_amount ascii_builtins (PyInt 12) = Inr (Num 12)"
    by (simp add: clean_amount_def pd_isna_def float_of_int_def)
  have bad: "str_float ascii_builtins (snd (prepare_text ascii_builtins ''1.5 billion'')) = Inl ValueError"
    by (simp only: example_texts snd_conv example_parses)
  have good: "str_float ascii_builtins (snd (prepare_text ascii_builtins '' $1.5M '')) = Inr (Num 1.5)"
    by (simp only: example_texts snd_conv example_parses)
  from clean_amount_returns [of "PyInt 12" ascii_builtins "''1.5 billion''" ValueError]
       clean_amount_returns [of "PyInt 12" ascii_builtins "'' $1.5M ''" _ "Num 1.5"]
       range twelve bad good
  show ?thesis by (simp add: example_texts np_round_def float_bound_def)
qed

end
